theory Spec2Isabelle
  imports Complex_Main
begin

section \<open>Shared types of the Scout frontend (lib/types)\<close>

text \<open>
  The string-literal unions of the types module become datatypes, one constructor for
  each literal, in the order of the source. The \<open>_literal\<close> functions give the string
  each constructor stands for on the wire.
\<close>

datatype ResearchStatus = RS_pending | RS_running | RS_completed | RS_stopped | RS_failed

datatype PathStatus = PS_active | PS_completed | PS_stopped | PS_exhausted | PS_error

datatype FindingCategory =
  Cat_people | Cat_initiative | Cat_technology | Cat_competitive | Cat_financial | Cat_market

datatype ConfidenceLevel = Conf_none | Conf_low | Conf_medium | Conf_high | Conf_sufficient

fun ResearchStatus_literal :: "ResearchStatus \<Rightarrow> string" where
  "ResearchStatus_literal RS_pending = ''pending''"
| "ResearchStatus_literal RS_running = ''running''"
| "ResearchStatus_literal RS_completed = ''completed''"
| "ResearchStatus_literal RS_stopped = ''stopped''"
| "ResearchStatus_literal RS_failed = ''failed''"

fun PathStatus_literal :: "PathStatus \<Rightarrow> string" where
  "PathStatus_literal PS_active = ''active''"
| "PathStatus_literal PS_completed = ''completed''"
| "PathStatus_literal PS_stopped = ''stopped''"
| "PathStatus_literal PS_exhausted = ''exhausted''"
| "PathStatus_literal PS_error = ''error''"

fun FindingCategory_literal :: "FindingCategory \<Rightarrow> string" where
  "FindingCategory_literal Cat_people = ''people''"
| "FindingCategory_literal Cat_initiative = ''initiative''"
| "FindingCategory_literal Cat_technology = ''technology''"
| "FindingCategory_literal Cat_competitive = ''competitive''"
| "FindingCategory_literal Cat_financial = ''financial''"
| "FindingCategory_literal Cat_market = ''market''"

text \<open>
  \<open>ResearchSession\<close> and \<open>ResearchPath\<close>: optional properties are options. Field names
  carry a prefix, since several interfaces share \<open>id\<close>, \<open>status\<close> and \<open>started_at\<close>.
\<close>

record ResearchSession =
  rs_id :: string
  rs_initiative_id :: string
  rs_triggered_by :: string
  rs_status :: ResearchStatus
  rs_follow_up_question :: "string option"
  rs_started_at :: "string option"
  rs_completed_at :: "string option"
  rs_error_message :: "string option"

record ResearchPath =
  rp_id :: string
  rp_research_cycle_id :: string
  rp_assignment_id :: string
  rp_topic :: string
  rp_instructions :: "string option"
  rp_status :: PathStatus
  rp_reasoning :: "string option"
  rp_tools_used :: nat
  rp_started_at :: string
  rp_completed_at :: "string option"

text \<open>
  \<open>ConfidenceAssessment\<close> has one required property for each category;
  \<open>ConfidenceAssessment_keys\<close> lists the property names as the interface declares them, and
  \<open>assessment_level\<close> is the indexing \<open>a[category]\<close>.
\<close>

record ConfidenceAssessment =
  ca_people :: ConfidenceLevel
  ca_initiative :: ConfidenceLevel
  ca_technology :: ConfidenceLevel
  ca_competitive :: ConfidenceLevel
  ca_financial :: ConfidenceLevel
  ca_market :: ConfidenceLevel

definition ConfidenceAssessment_keys :: "string list" where
  "ConfidenceAssessment_keys =
     [''people'', ''initiative'', ''technology'', ''competitive'', ''financial'', ''market'']"

fun assessment_level :: "ConfidenceAssessment \<Rightarrow> FindingCategory \<Rightarrow> ConfidenceLevel" where
  "assessment_level a Cat_people = ca_people a"
| "assessment_level a Cat_initiative = ca_initiative a"
| "assessment_level a Cat_technology = ca_technology a"
| "assessment_level a Cat_competitive = ca_competitive a"
| "assessment_level a Cat_financial = ca_financial a"
| "assessment_level a Cat_market = ca_market a"

text \<open>
  \<open>CategoryContent\<close> and \<open>DashboardContent\<close>. The findings of a category are kept as
  their identifiers; \<open>content\<close> has one optional property for each category, so it is a
  partial map on categories.
\<close>

record CategoryContent =
  cc_summary :: string
  cc_findings :: "string list"
  cc_insights :: "string list option"
  cc_confidence :: ConfidenceLevel

record PortfolioRecommendation =
  pr_vendor :: string
  pr_capability :: string
  pr_relevance :: string
  pr_supporting_findings :: "string list"

record DashboardContent =
  dc_id :: string
  dc_initiative_id :: string
  dc_content :: "FindingCategory \<rightharpoonup> CategoryContent"
  dc_portfolio_recommendations :: "PortfolioRecommendation list option"
  dc_created_at :: string
  dc_updated_at :: string

section \<open>The research session page: static tables\<close>

text \<open>
  \<open>confidenceConfig\<close>: colour, width class and label of each confidence level.
\<close>

record ConfidenceDisplay =
  color :: string
  width :: string
  label :: string

fun confidenceConfig :: "ConfidenceLevel \<Rightarrow> ConfidenceDisplay" where
  "confidenceConfig Conf_none =
     \<lparr>color = ''bg-gray-600'', width = ''w-0'', label = ''None''\<rparr>"
| "confidenceConfig Conf_low =
     \<lparr>color = ''bg-red-500'', width = ''w-1/4'', label = ''Low''\<rparr>"
| "confidenceConfig Conf_medium =
     \<lparr>color = ''bg-yellow-500'', width = ''w-1/2'', label = ''Medium''\<rparr>"
| "confidenceConfig Conf_high =
     \<lparr>color = ''bg-green-400'', width = ''w-3/4'', label = ''High''\<rparr>"
| "confidenceConfig Conf_sufficient =
     \<lparr>color = ''bg-scout-primary'', width = ''w-full'', label = ''Sufficient''\<rparr>"

text \<open>
  The position of a level in the declaration of \<open>ConfidenceLevel\<close>: the ordinal chain
  none, low, medium, high, sufficient.
\<close>

fun level_rank :: "ConfidenceLevel \<Rightarrow> nat" where
  "level_rank Conf_none = 0"
| "level_rank Conf_low = 1"
| "level_rank Conf_medium = 2"
| "level_rank Conf_high = 3"
| "level_rank Conf_sufficient = 4"

text \<open>
  The width utilities of the Tailwind stylesheet that the page uses (the project's Tailwind
  configuration extends colours only, so the stock widths apply): \<open>w-0\<close> is no width,
  \<open>w-full\<close> the whole track, \<open>w-n/d\<close> the fraction n/d of it. Any other class sets no
  width.
\<close>

definition tailwind_width :: "string \<Rightarrow> rat option" where
  "tailwind_width cls =
     (if cls = ''w-0'' then Some 0
      else if cls = ''w-1/4'' then Some (1 / 4)
      else if cls = ''w-1/2'' then Some (1 / 2)
      else if cls = ''w-3/4'' then Some (3 / 4)
      else if cls = ''w-full'' then Some 1
      else None)"

definition bar_fraction :: "ConfidenceLevel \<Rightarrow> rat option" where
  "bar_fraction l = tailwind_width (width (confidenceConfig l))"

text \<open>
  \<open>categoryConfig\<close>: \<open>categoryConfig_keys\<close> is \<open>Object.keys(categoryConfig)\<close>, the
  categories in the order the table lists them; the labels are the table's.
\<close>

definition categoryConfig_keys :: "FindingCategory list" where
  "categoryConfig_keys =
     [Cat_people, Cat_initiative, Cat_technology, Cat_competitive, Cat_financial, Cat_market]"

fun categoryConfig_label :: "FindingCategory \<Rightarrow> string" where
  "categoryConfig_label Cat_people = ''Key People''"
| "categoryConfig_label Cat_initiative = ''Initiative Details''"
| "categoryConfig_label Cat_technology = ''Technology Stack''"
| "categoryConfig_label Cat_competitive = ''Competitive Intel''"
| "categoryConfig_label Cat_financial = ''Financial Signals''"
| "categoryConfig_label Cat_market = ''Market Context''"

text \<open>
  One dashboard card of \<open>ResearchSessionPage\<close>: for a category,
  \<open>content = dashboard.content[category]\<close> and
  \<open>confidence = content?.confidence || "none"\<close>; every level is a non-empty string, so
  \<open>||\<close> falls through to \<open>"none"\<close> exactly when \<open>content\<close> is undefined.
\<close>

definition card_confidence :: "DashboardContent \<Rightarrow> FindingCategory \<Rightarrow> ConfidenceLevel" where
  "card_confidence dashboard category =
     (case dc_content dashboard category of
        None \<Rightarrow> Conf_none
      | Some content \<Rightarrow> cc_confidence content)"

record CategoryCard =
  card_category :: FindingCategory
  card_title :: string
  card_level :: ConfidenceLevel
  card_display :: ConfidenceDisplay
  card_summary :: "string option"

definition render_card :: "DashboardContent \<Rightarrow> FindingCategory \<Rightarrow> CategoryCard" where
  "render_card dashboard category =
     (let confidence = card_confidence dashboard category
      in \<lparr>card_category = category,
          card_title = categoryConfig_label category,
          card_level = confidence,
          card_display = confidenceConfig confidence,
          card_summary =
            (case dc_content dashboard category of
               None \<Rightarrow> None
             | Some content \<Rightarrow> if cc_summary content = [] then None else Some (cc_summary content))\<rparr>)"

definition render_cards :: "DashboardContent \<Rightarrow> CategoryCard list" where
  "render_cards dashboard = map (render_card dashboard) categoryConfig_keys"

text \<open>
  \<open>StatusBadge\<close>: the badge table is keyed by the status string, and
  \<open>config[status] || config.pending\<close> falls back to the pending badge for a string that is
  no property of the table. The table is an object literal, so besides its five own keys
  the lookup finds the properties every object inherits; each of those is truthy and has
  no \<open>label\<close>, and the badge then shows \<open>undefined\<close>, here \<open>None\<close>.
\<close>

definition StatusBadge_config :: "string \<rightharpoonup> string" where
  "StatusBadge_config =
     [''pending'' \<mapsto> ''Pending'', ''running'' \<mapsto> ''Running'', ''completed'' \<mapsto> ''Completed'',
      ''stopped'' \<mapsto> ''Stopped'', ''failed'' \<mapsto> ''Failed'']"

definition Object_prototype_keys :: "string list" where
  "Object_prototype_keys =
     [''constructor'', ''toString'', ''toLocaleString'', ''valueOf'', ''hasOwnProperty'',
      ''isPrototypeOf'', ''propertyIsEnumerable'', ''__proto__'', ''__defineGetter__'',
      ''__defineSetter__'', ''__lookupGetter__'', ''__lookupSetter__'']"

definition StatusBadge :: "string \<Rightarrow> string option" where
  "StatusBadge status =
     (case StatusBadge_config status of
        Some c \<Rightarrow> Some c
      | None \<Rightarrow> if status \<in> set Object_prototype_keys then None else Some ''Pending'')"

section \<open>JavaScript values\<close>

text \<open>
  A value produced by \<open>JSON.parse\<close> or \<open>response.json()\<close>. Numbers are modelled as
  integers (exact in a JavaScript double up to 2^53); an object is its list of properties,
  read with \<open>map_of\<close>. \<open>jsval\<close> adds \<open>undefined\<close>, as \<open>None\<close>.
\<close>

datatype json =
  JNull | JBool bool | JNum int | JStr string | JArr "json list" | JObj "(string \<times> json) list"

type_synonym jsval = "json option"

text \<open>
  What the code can throw or reject with: \<open>ApiError\<close> with its status and message, and
  the platform's \<open>TypeError\<close> and \<open>SyntaxError\<close>. Each is an instance of \<open>Error\<close>
  and \<open>thrown_message\<close> is its \<open>message\<close>.
\<close>

datatype thrown = ApiError nat string | TypeError string | SyntaxError string

fun thrown_message :: "thrown \<Rightarrow> string" where
  "thrown_message (ApiError code msg) = msg"
| "thrown_message (TypeError msg) = msg"
| "thrown_message (SyntaxError msg) = msg"

text \<open>Truthiness, as \<open>||\<close> and \<open>if\<close> test it.\<close>

fun js_truthy :: "jsval \<Rightarrow> bool" where
  "js_truthy None = False"
| "js_truthy (Some JNull) = False"
| "js_truthy (Some (JBool b)) = b"
| "js_truthy (Some (JNum n)) = (n \<noteq> 0)"
| "js_truthy (Some (JStr s)) = (s \<noteq> [])"
| "js_truthy (Some (JArr xs)) = True"
| "js_truthy (Some (JObj kvs)) = True"

text \<open>
  A number in decimal, as a template literal prints it: \<open>decimal\<close> for a natural
  number, \<open>js_number\<close> for an integer with its sign. JavaScript prints a number in
  plain decimal below 10^21 and in exponent notation from there on; the model prints
  plain decimal throughout and is the program's output only in that range.
\<close>

definition digit_char :: "nat \<Rightarrow> char" where
  "digit_char d = ''0123456789'' ! d"

fun decimal :: "nat \<Rightarrow> string" where
  "decimal n =
     (if 10 \<le> n then decimal (n div 10) @ [digit_char (n mod 10)] else [digit_char n])"

declare decimal.simps [simp del]

definition js_number :: "int \<Rightarrow> string" where
  "js_number i = (if 0 \<le> i then decimal (nat i) else CHR ''-'' # decimal (nat (- i)))"

text \<open>
  \<open>ToString\<close>, which a template literal and the \<open>Error\<close> constructor apply: an array
  joins its elements with commas, \<open>null\<close> elements printing as nothing; an object prints
  as \<open>[object Object]\<close>.
\<close>

fun intersperse_commas :: "string list \<Rightarrow> string" where
  "intersperse_commas [] = []"
| "intersperse_commas [x] = x"
| "intersperse_commas (x # y # ys) = x @ '','' @ intersperse_commas (y # ys)"

fun js_ToString :: "json \<Rightarrow> string" where
  "js_ToString JNull = ''null''"
| "js_ToString (JBool b) = (if b then ''true'' else ''false'')"
| "js_ToString (JNum n) = js_number n"
| "js_ToString (JStr s) = s"
| "js_ToString (JArr xs) =
     intersperse_commas (map (\<lambda>x. if x = JNull then [] else js_ToString x) xs)"
| "js_ToString (JObj kvs) = ''[object Object]''"

definition js_template :: "jsval \<Rightarrow> string" where
  "js_template v = (case v of None \<Rightarrow> ''undefined'' | Some j \<Rightarrow> js_ToString j)"

text \<open>
  Reading a property that is no built-in of strings, numbers, booleans or arrays (the code
  reads \<open>message\<close>): \<open>null\<close> has no properties and the read throws, an object gives the
  property or \<open>undefined\<close>, every other value gives \<open>undefined\<close>.
\<close>

fun js_member :: "json \<Rightarrow> string \<Rightarrow> thrown + jsval" where
  "js_member JNull key = Inl (TypeError ''Cannot read properties of null'')"
| "js_member (JObj kvs) key = Inr (map_of kvs key)"
| "js_member v key = Inr None"

section \<open>The API client (lib/api)\<close>

text \<open>
  What \<open>fetch\<close> resolved with: the \<open>ok\<close> flag, the status code, and what
  \<open>response.json()\<close> gives for the body, \<open>None\<close> when the body is not JSON and the call
  rejects.
\<close>

record Response =
  ok :: bool
  status :: nat
  json_body :: "json option"

text \<open>
  \<open>request\<close>, after \<open>fetch\<close> has settled: \<open>Inl\<close> is what \<open>fetch\<close> rejected with. A
  response that is not ok reads the error body, \<open>{message: "Unknown error"}\<close> standing in
  for a body that is not JSON, and throws \<open>ApiError\<close> with the status and
  \<open>error.message || `HTTP ${response.status}`\<close>; an ok response returns
  \<open>response.json()\<close>, which rejects with a \<open>SyntaxError\<close> on a body that is not JSON
  (the message is the engine's; the one for an empty body stands for it).
\<close>

definition request :: "thrown + Response \<Rightarrow> thrown + json" where
  "request fetched =
     (case fetched of
        Inl e \<Rightarrow> Inl e
      | Inr response \<Rightarrow>
          if \<not> ok response then
            (let error = (case json_body response of
                            None \<Rightarrow> JObj [(''message'', JStr ''Unknown error'')]
                          | Some v \<Rightarrow> v)
             in case js_member error ''message'' of
                  Inl e \<Rightarrow> Inl e
                | Inr m \<Rightarrow>
                    Inl (ApiError (status response)
                          (if js_truthy m then js_template m
                           else ''HTTP '' @ decimal (status response))))
          else
            (case json_body response of
               None \<Rightarrow> Inl (SyntaxError ''Unexpected end of JSON input'')
             | Some v \<Rightarrow> Inr v))"

text \<open>
  The calls of \<open>researchApi\<close>, as the method, endpoint and body each hands to \<open>request\<close>.
\<close>

record ApiCall =
  call_method :: string
  call_endpoint :: string
  call_body :: "json option"

definition researchApi_start :: "json \<Rightarrow> ApiCall" where
  "researchApi_start data =
     \<lparr>call_method = ''POST'', call_endpoint = ''/research/start'', call_body = Some data\<rparr>"

definition researchApi_get :: "string \<Rightarrow> ApiCall" where
  "researchApi_get sessionId =
     \<lparr>call_method = ''GET'', call_endpoint = ''/research/'' @ sessionId, call_body = None\<rparr>"

definition researchApi_stop :: "string \<Rightarrow> ApiCall" where
  "researchApi_stop sessionId =
     \<lparr>call_method = ''POST'', call_endpoint = ''/research/'' @ sessionId @ ''/stop'',
      call_body = None\<rparr>"

definition researchApi_stopPath :: "string \<Rightarrow> string \<Rightarrow> ApiCall" where
  "researchApi_stopPath sessionId pathId =
     \<lparr>call_method = ''POST'',
      call_endpoint = ''/research/'' @ sessionId @ ''/paths/'' @ pathId @ ''/stop'',
      call_body = None\<rparr>"

definition researchApi_followUp :: "string \<Rightarrow> json \<Rightarrow> ApiCall" where
  "researchApi_followUp sessionId data =
     \<lparr>call_method = ''POST'', call_endpoint = ''/research/'' @ sessionId @ ''/follow-up'',
      call_body = Some data\<rparr>"

definition researchApi_getDashboard :: "string \<Rightarrow> ApiCall" where
  "researchApi_getDashboard initiativeId =
     \<lparr>call_method = ''GET'', call_endpoint = ''/initiatives/'' @ initiativeId @ ''/dashboard'',
      call_body = None\<rparr>"

text \<open>
  The members of \<open>researchApi\<close> in the order of the object literal, each with the call
  it makes for a session, a path, an initiative and a request body.
\<close>

definition researchApi ::
  "string \<Rightarrow> string \<Rightarrow> string \<Rightarrow> json \<Rightarrow> (string \<times> ApiCall) list" where
  "researchApi sessionId pathId initiativeId data =
     [(''start'', researchApi_start data),
      (''get'', researchApi_get sessionId),
      (''stop'', researchApi_stop sessionId),
      (''stopPath'', researchApi_stopPath sessionId pathId),
      (''followUp'', researchApi_followUp sessionId data),
      (''getDashboard'', researchApi_getDashboard initiativeId)]"

section \<open>The useSSE hook\<close>

text \<open>
  The state the hook keeps and what it calls: \<open>eventSourceRef\<close> is \<open>None\<close> for a null
  reference and otherwise tells whether the referenced \<open>EventSource\<close> is still open; the
  three call logs record each invocation of the caller's callbacks, \<open>onMessage\<close> with its
  argument; \<open>console_errors\<close> counts the calls of \<open>console.error\<close>.
\<close>

record SSEHook =
  isConnected :: bool
  connectionError :: "string option"
  eventSourceRef :: "bool option"
  onMessage_calls :: "json list"
  onError_calls :: nat
  onOpen_calls :: nat
  console_errors :: nat

datatype SourceEvent = Open | Message string | Error

text \<open>
  The three handlers that \<open>connect\<close> installs on the event source. \<open>JSON_parse\<close> is the
  platform's parser, \<open>None\<close> where it throws; the caller's callbacks are taken to
  return normally.
\<close>

definition onopen :: "SSEHook \<Rightarrow> SSEHook" where
  "onopen h = h\<lparr>isConnected := True, connectionError := None, onOpen_calls := onOpen_calls h + 1\<rparr>"

definition onmessage :: "(string \<Rightarrow> json option) \<Rightarrow> string \<Rightarrow> SSEHook \<Rightarrow> SSEHook" where
  "onmessage JSON_parse data h =
     (case JSON_parse data of
        Some sseEvent \<Rightarrow> h\<lparr>onMessage_calls := onMessage_calls h @ [sseEvent]\<rparr>
      | None \<Rightarrow> h\<lparr>console_errors := console_errors h + 1\<rparr>)"

definition onerror :: "SSEHook \<Rightarrow> SSEHook" where
  "onerror h =
     h\<lparr>isConnected := False, connectionError := Some ''Connection lost'',
       onError_calls := onError_calls h + 1, eventSourceRef := Some False\<rparr>"

text \<open>
  An event of the event source reaches its handler only while the source is open: a closed
  \<open>EventSource\<close> dispatches nothing.
\<close>

definition source_open :: "SSEHook \<Rightarrow> bool" where
  "source_open h = (eventSourceRef h = Some True)"

fun dispatch :: "(string \<Rightarrow> json option) \<Rightarrow> SourceEvent \<Rightarrow> SSEHook \<Rightarrow> SSEHook" where
  "dispatch JSON_parse Open h = (if source_open h then onopen h else h)"
| "dispatch JSON_parse (Message data) h = (if source_open h then onmessage JSON_parse data h else h)"
| "dispatch JSON_parse Error h = (if source_open h then onerror h else h)"

text \<open>A sequence of events of the event source, dispatched in order.\<close>

fun run_events :: "(string \<Rightarrow> json option) \<Rightarrow> SourceEvent list \<Rightarrow> SSEHook \<Rightarrow> SSEHook" where
  "run_events JSON_parse [] h = h"
| "run_events JSON_parse (ev # evs) h = run_events JSON_parse evs (dispatch JSON_parse ev h)"

text \<open>
  The hook's own operations: \<open>connect\<close> closes a referenced source and opens a new one,
  \<open>disconnect\<close> closes and forgets the referenced source, and \<open>cleanup\<close> is the function
  that \<open>connect\<close> returns.
\<close>

definition connect :: "SSEHook \<Rightarrow> SSEHook" where
  "connect h = h\<lparr>eventSourceRef := Some True\<rparr>"

definition disconnect :: "SSEHook \<Rightarrow> SSEHook" where
  "disconnect h =
     (case eventSourceRef h of
        None \<Rightarrow> h
      | Some _ \<Rightarrow> h\<lparr>eventSourceRef := None, isConnected := False\<rparr>)"

definition cleanup :: "SSEHook \<Rightarrow> SSEHook" where
  "cleanup h =
     h\<lparr>eventSourceRef := map_option (\<lambda>_. False) (eventSourceRef h), isConnected := False\<rparr>"

section \<open>The research session page: state and handlers\<close>

text \<open>
  The union \<open>SSEEventType\<close> and the interface \<open>SSEEvent\<close>; \<open>data\<close> is a
  \<open>Record<string, unknown>\<close>, a list of properties.
\<close>

datatype SSEEventType =
  Ev_cycle_started | Ev_subagent_started | Ev_subagent_completed | Ev_subagent_stopped
| Ev_synthesis_complete | Ev_findings_updated | Ev_initiative_discovered
| Ev_research_complete | Ev_error

fun SSEEventType_literal :: "SSEEventType \<Rightarrow> string" where
  "SSEEventType_literal Ev_cycle_started = ''cycle_started''"
| "SSEEventType_literal Ev_subagent_started = ''subagent_started''"
| "SSEEventType_literal Ev_subagent_completed = ''subagent_completed''"
| "SSEEventType_literal Ev_subagent_stopped = ''subagent_stopped''"
| "SSEEventType_literal Ev_synthesis_complete = ''synthesis_complete''"
| "SSEEventType_literal Ev_findings_updated = ''findings_updated''"
| "SSEEventType_literal Ev_initiative_discovered = ''initiative_discovered''"
| "SSEEventType_literal Ev_research_complete = ''research_complete''"
| "SSEEventType_literal Ev_error = ''error''"

record SSEEvent =
  ev_type :: SSEEventType
  ev_timestamp :: string
  ev_session_id :: string
  ev_data :: "(string \<times> json) list"

definition data_get :: "SSEEvent \<Rightarrow> string \<Rightarrow> jsval" where
  "data_get event key = map_of (ev_data event) key"

text \<open>
  The page's state. \<open>dashboard\<close> and \<open>error\<close> hold values as received (the casts of the
  source check nothing), \<open>Some JNull\<close> being the initial \<open>null\<close>; \<open>activePaths\<close> is the
  \<open>Map\<close> from path identifier to topic and start time, its keys compared by value.
  A log entry keeps the event's timestamp string, from which the source builds its \<open>Date\<close>.
\<close>

record ActivityLogEntry =
  le_id :: string
  le_type :: string
  le_message :: string
  le_timestamp :: string

record ActivePath =
  ap_topic :: jsval
  ap_startedAt :: nat

record PageState =
  session :: "ResearchSession option"
  dashboard :: jsval
  activityLog :: "ActivityLogEntry list"
  activePaths :: "jsval \<rightharpoonup> ActivePath"
  error :: jsval
  followUpQuestion :: string
  isSubmittingFollowUp :: bool

text \<open>
  \<open>formatEventMessage\<close>. Each message starts with a pictograph, given here by the
  UTF-8 bytes that the source file holds for it. The \<open>default\<close> branch of the source is
  unreachable for a value of \<open>SSEEventType\<close>.
\<close>

definition pictograph :: "SSEEventType \<Rightarrow> string" where
  "pictograph t =
     (case t of
        Ev_cycle_started \<Rightarrow>
          [CHR 0xEF, CHR 0xA3, CHR 0xBF, CHR 0xC3, CHR 0xBC, CHR 0xC3, CHR 0xAE, CHR 0xC3, CHR 0x91]
      | Ev_subagent_started \<Rightarrow>
          [CHR 0xEF, CHR 0xA3, CHR 0xBF, CHR 0xC3, CHR 0xBC, CHR 0xC3, CHR 0xAE, CHR 0xC3, CHR 0xA7]
      | Ev_subagent_completed \<Rightarrow>
          [CHR 0xE2, CHR 0x80, CHR 0x9A, CHR 0xC3, CHR 0xBA, CHR 0xC3, CHR 0x96]
      | Ev_subagent_stopped \<Rightarrow>
          [CHR 0xE2, CHR 0x80, CHR 0x9A, CHR 0xC3, CHR 0xA8, CHR 0xCF, CHR 0x80, CHR 0xC3, CHR 0x94,
           CHR 0xE2, CHR 0x88, CHR 0x8F, CHR 0xC3, CHR 0xA8]
      | Ev_synthesis_complete \<Rightarrow>
          [CHR 0xEF, CHR 0xA3, CHR 0xBF, CHR 0xC3, CHR 0xBC, CHR 0xC3, CHR 0x9F, CHR 0xE2, CHR 0x84,
           CHR 0xA2]
      | Ev_findings_updated \<Rightarrow>
          [CHR 0xEF, CHR 0xA3, CHR 0xBF, CHR 0xC3, CHR 0xBC, CHR 0xC3, CHR 0xAC, CHR 0xC3, CHR 0xA4]
      | Ev_initiative_discovered \<Rightarrow>
          [CHR 0xEF, CHR 0xA3, CHR 0xBF, CHR 0xC3, CHR 0xBC, CHR 0xC3, CHR 0xAD, CHR 0xC2, CHR 0xB0]
      | Ev_research_complete \<Rightarrow>
          [CHR 0xEF, CHR 0xA3, CHR 0xBF, CHR 0xC3, CHR 0xBC, CHR 0xC3, CHR 0xA9, CHR 0xC3, CHR 0xA2]
      | Ev_error \<Rightarrow>
          [CHR 0xE2, CHR 0x80, CHR 0x9A, CHR 0xC3, CHR 0xB9, CHR 0xC3, CHR 0xA5])"

definition formatEventMessage :: "SSEEvent \<Rightarrow> string" where
  "formatEventMessage event =
     pictograph (ev_type event) @
     (case ev_type event of
        Ev_cycle_started \<Rightarrow> '' Starting cycle '' @ js_template (data_get event ''cycle_number'')
      | Ev_subagent_started \<Rightarrow> '' Researching: '' @ js_template (data_get event ''topic'')
      | Ev_subagent_completed \<Rightarrow>
          '' Completed: '' @ js_template (data_get event ''topic'') @ '' ('' @
          js_template (data_get event ''findings_count'') @ '' findings)''
      | Ev_subagent_stopped \<Rightarrow> '' Stopped: '' @ js_template (data_get event ''topic'')
      | Ev_synthesis_complete \<Rightarrow> '' Synthesis complete - dashboard updated''
      | Ev_findings_updated \<Rightarrow> '' Dashboard updated with new findings''
      | Ev_initiative_discovered \<Rightarrow>
          '' Discovered initiative: '' @ js_template (data_get event ''initiative_name'')
      | Ev_research_complete \<Rightarrow> '' Research complete!''
      | Ev_error \<Rightarrow> '' Error: '' @ js_template (data_get event ''message''))"

text \<open>
  \<open>handleSSEEvent\<close>, with the clock reading \<open>now\<close> that \<open>Date.now()\<close> and
  \<open>new Date()\<close> give: the entry is appended to the activity log, then the \<open>switch\<close> on
  the event type runs. \<open>synthesis_complete\<close> has no case and only logs.
\<close>

definition handleSSEEvent :: "nat \<Rightarrow> SSEEvent \<Rightarrow> PageState \<Rightarrow> PageState" where
  "handleSSEEvent now event s =
     (let logEntry =
            \<lparr>le_id = SSEEventType_literal (ev_type event) @ ''-'' @ decimal now,
             le_type = SSEEventType_literal (ev_type event),
             le_message = formatEventMessage event,
             le_timestamp = ev_timestamp event\<rparr>;
          s1 = s\<lparr>activityLog := activityLog s @ [logEntry]\<rparr>
      in case ev_type event of
           Ev_cycle_started \<Rightarrow> s1
         | Ev_subagent_started \<Rightarrow>
             s1\<lparr>activePaths := (activePaths s1)
                   (data_get event ''path_id'' \<mapsto>
                      \<lparr>ap_topic = data_get event ''topic'', ap_startedAt = now\<rparr>)\<rparr>
         | Ev_subagent_completed \<Rightarrow>
             s1\<lparr>activePaths := (activePaths s1)(data_get event ''path_id'' := None)\<rparr>
         | Ev_subagent_stopped \<Rightarrow>
             s1\<lparr>activePaths := (activePaths s1)(data_get event ''path_id'' := None)\<rparr>
         | Ev_findings_updated \<Rightarrow> s1\<lparr>dashboard := data_get event ''dashboard_content''\<rparr>
         | Ev_research_complete \<Rightarrow>
             s1\<lparr>session := map_option (\<lambda>prev. prev\<lparr>rs_status := RS_completed\<rparr>) (session s1)\<rparr>
         | Ev_error \<Rightarrow> s1\<lparr>error := data_get event ''message''\<rparr>
         | Ev_initiative_discovered \<Rightarrow> s1
         | Ev_synthesis_complete \<Rightarrow> s1)"

text \<open>
  \<open>drop_keys\<close> removes properties from an event's data, and \<open>SSEEventType_all\<close> lists
  the members of the union \<open>SSEEventType\<close> in the order of the source.
\<close>

definition drop_keys :: "string list \<Rightarrow> SSEEvent \<Rightarrow> SSEEvent" where
  "drop_keys keys event =
     event\<lparr>ev_data := filter (\<lambda>kv. fst kv \<notin> set keys) (ev_data event)\<rparr>"

definition SSEEventType_all :: "SSEEventType list" where
  "SSEEventType_all =
     [Ev_cycle_started, Ev_subagent_started, Ev_subagent_completed, Ev_subagent_stopped,
      Ev_synthesis_complete, Ev_findings_updated, Ev_initiative_discovered,
      Ev_research_complete, Ev_error]"

text \<open>
  The effect that sets up the page's event stream returns before opening an
  \<open>EventSource\<close> when there is no session or its status is completed, stopped or failed,
  and its cleanup closes the source whenever the status changes: a stream is attached
  only while this guard holds, and only then can a message reach \<open>handleSSEEvent\<close>.
\<close>

definition stream_attached :: "PageState \<Rightarrow> bool" where
  "stream_attached s =
     (case session s of
        None \<Rightarrow> False
      | Some sess \<Rightarrow>
          \<not> (rs_status sess = RS_completed \<or> rs_status sess = RS_stopped \<or> rs_status sess = RS_failed))"

definition on_stream_message :: "nat \<Rightarrow> SSEEvent \<Rightarrow> PageState \<Rightarrow> PageState" where
  "on_stream_message now event s = (if stream_attached s then handleSSEEvent now event s else s)"

text \<open>
  \<open>handleStopResearch\<close>, given how \<open>researchApi.stop(sessionId)\<close> settled: on success the
  session, when there is one, gets status stopped; a rejection sets the error to the
  message of what was thrown.
\<close>

definition handleStopResearch :: "thrown + json \<Rightarrow> PageState \<Rightarrow> PageState" where
  "handleStopResearch stopped s =
     (case stopped of
        Inr _ \<Rightarrow> s\<lparr>session := map_option (\<lambda>prev. prev\<lparr>rs_status := RS_stopped\<rparr>) (session s)\<rparr>
      | Inl err \<Rightarrow> s\<lparr>error := Some (JStr (thrown_message err))\<rparr>)"

text \<open>
  The page shows the Stop Research button only while \<open>isActive\<close>: the error screen and the
  loading screen come first, then the status must be running or pending.
\<close>

definition stop_button_shown :: "PageState \<Rightarrow> bool" where
  "stop_button_shown s =
     (\<not> js_truthy (error s) \<and>
      (case session s of
         None \<Rightarrow> False
       | Some sess \<Rightarrow> rs_status sess = RS_running \<or> rs_status sess = RS_pending))"

section \<open>The cycle of the design document\<close>

text \<open>
  \<open>execute_cycle\<close> of the design document (Parallelism Implementation), the one listing
  of the dispatcher that the repository holds: one task is created for each assignment of
  \<open>assignments[:5]\<close>, all are awaited with \<open>return_exceptions=True\<close>, and the results
  that are not exceptions are returned. \<open>run_research_subagent\<close> gives \<open>Inl\<close> for a
  sub-agent that raised.
\<close>

definition execute_cycle_tasks :: "'a list \<Rightarrow> 'a list" where
  "execute_cycle_tasks assignments = take 5 assignments"

definition execute_cycle :: "('a \<Rightarrow> 'e + 'r) \<Rightarrow> 'a list \<Rightarrow> 'r list" where
  "execute_cycle run_research_subagent assignments =
     (let tasks = execute_cycle_tasks assignments;
          results = map run_research_subagent tasks;
          successful = List.map_filter (\<lambda>r. case r of Inl e \<Rightarrow> None | Inr v \<Rightarrow> Some v) results
      in successful)"

section \<open>The Cycle Engine\<close>

text \<open>
  Modelled from the spec: the Cycle Engine itself (the orchestrator's session loop), of
  which the repository holds only the client, the shared types and the listing above.
  The model follows sections 4.1 and 4.3 of the specification.

  An assignment has an identifier, a topic and a priority, a smaller number being the
  more urgent. A worker finishes with findings, finishes exhausted, is cancelled with
  the findings it had, or fails after its own retries. \<open>CycleInput\<close> is what the
  Engine's collaborators do in one cycle: the session's StopSignal as the Engine reads it
  before dispatch and again between the workers' completions and before the Merger, the
  Planner's output (\<open>None\<close> when the Planner failed after its retry), each worker's
  result, and the Merger's count of new non-duplicate findings and its assessment. The
  Formatter has no effect on control flow and is left out.
\<close>

record Assignment =
  as_id :: string
  as_topic :: string
  as_priority :: nat

datatype WorkerResult = Finished nat | Exhausted | Cancelled nat | WorkerFailure

record Plan =
  plan_assignments :: "Assignment list"
  plan_done :: bool

record CycleInput =
  ci_stop_before_dispatch :: bool
  ci_stop_during_cycle :: bool
  ci_plan :: "Plan option"
  ci_worker :: "Assignment \<Rightarrow> WorkerResult"
  ci_new_findings :: nat
  ci_assessment :: ConfidenceAssessment

record EngineSession =
  es_status :: ResearchStatus
  es_cycle_count :: nat
  es_low_yield_cycles :: nat
  es_assessment :: ConfidenceAssessment
  es_terminal_reason :: "string option"

text \<open>
  Modelled from the spec: the hard cap of five live paths in a cycle, the default cycle
  ceiling of six, and the default low-yield threshold of two new findings.
\<close>

definition max_paths :: nat where "max_paths = 5"

definition cycle_ceiling :: nat where "cycle_ceiling = 6"

definition low_yield_threshold :: nat where "low_yield_threshold = 2"

text \<open>
  Modelled from the spec: step 1 of the cycle, the truncation of the plan to the first
  five assignments by priority, ties in input order (the sort is stable), and step 2,
  one path for each assignment kept.
\<close>

definition dispatched :: "Plan \<Rightarrow> Assignment list" where
  "dispatched plan = take max_paths (sort_key as_priority (plan_assignments plan))"

definition all_failed :: "WorkerResult list \<Rightarrow> bool" where
  "all_failed results = (results \<noteq> [] \<and> list_all (\<lambda>r. r = WorkerFailure) results)"

definition confidence_floor_met :: "ConfidenceAssessment \<Rightarrow> bool" where
  "confidence_floor_met a =
     list_all (\<lambda>c. level_rank Conf_medium \<le> level_rank (assessment_level a c)) categoryConfig_keys"

text \<open>
  Modelled from the spec: one cycle of the Engine. A session that is not running starts
  no cycle. A StopSignal found set, before dispatch or later in the cycle, halts the
  session as stopped. A failed Planner, and a cycle whose workers all failed (an empty
  plan is not such a cycle), end the session as failed. Otherwise the Merger's result is taken over and the stop
  condition is evaluated: the Planner's completion signal together with the confidence
  floor, two consecutive low-yield cycles, or the cycle ceiling end the session as
  completed (the specification gives these no order; they are tried in the order it lists
  them).
\<close>

definition engine_cycle :: "CycleInput \<Rightarrow> EngineSession \<Rightarrow> EngineSession" where
  "engine_cycle ci s =
     (if es_status s \<noteq> RS_running then s
      else if ci_stop_before_dispatch ci then
        s\<lparr>es_status := RS_stopped, es_terminal_reason := Some ''stopped''\<rparr>
      else
        (let n = es_cycle_count s + 1
         in case ci_plan ci of
              None \<Rightarrow>
                s\<lparr>es_status := RS_failed, es_cycle_count := n,
                  es_terminal_reason := Some ''planner_failed''\<rparr>
            | Some plan \<Rightarrow>
                (let results = map (ci_worker ci) (dispatched plan)
                 in if ci_stop_during_cycle ci then
                      s\<lparr>es_status := RS_stopped, es_cycle_count := n,
                        es_terminal_reason := Some ''stopped''\<rparr>
                    else if all_failed results then
                      s\<lparr>es_status := RS_failed, es_cycle_count := n,
                        es_terminal_reason := Some ''all_workers_failed''\<rparr>
                    else
                      (let low = (if ci_new_findings ci \<le> low_yield_threshold
                                  then es_low_yield_cycles s + 1 else 0);
                           s' = s\<lparr>es_cycle_count := n, es_low_yield_cycles := low,
                                   es_assessment := ci_assessment ci\<rparr>
                       in if plan_done plan \<and> confidence_floor_met (ci_assessment ci) then
                            s'\<lparr>es_status := RS_completed,
                               es_terminal_reason := Some ''confidence_reached''\<rparr>
                          else if 2 \<le> low then
                            s'\<lparr>es_status := RS_completed,
                               es_terminal_reason := Some ''diminishing_returns''\<rparr>
                          else if cycle_ceiling \<le> n then
                            s'\<lparr>es_status := RS_completed,
                               es_terminal_reason := Some ''max_cycles''\<rparr>
                          else s'))))"

text \<open>
  Modelled from the spec: the session loop, one \<open>CycleInput\<close> for each cycle the
  collaborators would take part in, and the session that StartSession creates.
\<close>

fun run_session :: "CycleInput list \<Rightarrow> EngineSession \<Rightarrow> EngineSession" where
  "run_session [] s = s"
| "run_session (ci # rest) s = run_session rest (engine_cycle ci s)"

definition start_session :: "ConfidenceAssessment \<Rightarrow> EngineSession" where
  "start_session a =
     \<lparr>es_status = RS_running, es_cycle_count = 0, es_low_yield_cycles = 0,
      es_assessment = a, es_terminal_reason = None\<rparr>"

section \<open>The session handle and Stop\<close>

text \<open>
  Modelled from the spec: the session handle that StartSession returns and its Stop
  operation, of which the repository holds only the client call and the page's button
  handler. The handle holds the session, the session's StopSignal, and the terminal
  events emitted on the session's stream so far, each kept as the status and terminal
  reason it announces (the other events of the stream play no part in stopping and are
  left out). StartSession creates a running session with the signal clear and nothing
  emitted. Stop only sets the StopSignal and returns.
\<close>

record SessionHandle =
  sh_session :: EngineSession
  sh_stop_signal :: bool
  sh_terminal_events :: "(ResearchStatus \<times> string option) list"

definition StartSession :: "ConfidenceAssessment \<Rightarrow> SessionHandle" where
  "StartSession a =
     \<lparr>sh_session = start_session a, sh_stop_signal = False, sh_terminal_events = []\<rparr>"

definition Stop :: "SessionHandle \<Rightarrow> SessionHandle" where
  "Stop h = h\<lparr>sh_stop_signal := True\<rparr>"

text \<open>
  Modelled from the spec: one cycle of the Engine on a handle. A session that has left
  running is terminal and nothing happens. Otherwise the Engine reads the handle's
  StopSignal at its checks; a stop flag of the cycle input stands for a Stop call that
  arrives by that point of the cycle, and sets the signal as well. When the cycle takes
  the session out of running, the Engine emits the terminal event.
\<close>

definition engine_step :: "CycleInput \<Rightarrow> SessionHandle \<Rightarrow> SessionHandle" where
  "engine_step ci h =
     (if es_status (sh_session h) \<noteq> RS_running then h
      else
        (let before = (sh_stop_signal h \<or> ci_stop_before_dispatch ci);
             during = (before \<or> ci_stop_during_cycle ci);
             s' = engine_cycle
                    (ci\<lparr>ci_stop_before_dispatch := before, ci_stop_during_cycle := during\<rparr>)
                    (sh_session h)
         in h\<lparr>sh_session := s', sh_stop_signal := during,
               sh_terminal_events :=
                 sh_terminal_events h @
                 (if es_status s' \<noteq> RS_running
                  then [(es_status s', es_terminal_reason s')] else [])\<rparr>))"

text \<open>
  Modelled from the spec: what happens to a handle over time, the controller's Stop calls
  interleaved with the Engine's cycles.
\<close>

datatype HandleAction = Call_Stop | Engine_cycle CycleInput

fun handle_action :: "HandleAction \<Rightarrow> SessionHandle \<Rightarrow> SessionHandle" where
  "handle_action Call_Stop h = Stop h"
| "handle_action (Engine_cycle ci) h = engine_step ci h"

fun run_actions :: "HandleAction list \<Rightarrow> SessionHandle \<Rightarrow> SessionHandle" where
  "run_actions [] h = h"
| "run_actions (act # acts) h = run_actions acts (handle_action act h)"

text \<open>
  Modelled from the spec: the invariant of a handle that the proofs below carry along a
  run, after the rule that a session is terminal once its status leaves running: a
  running session
  has emitted no terminal event, a session that has left running has emitted exactly the
  one for its status and reason, and a stopped session has its StopSignal set.
\<close>

definition handle_inv :: "SessionHandle \<Rightarrow> bool" where
  "handle_inv h =
     (if es_status (sh_session h) = RS_running then sh_terminal_events h = []
      else sh_terminal_events h
             = [(es_status (sh_session h), es_terminal_reason (sh_session h))]
           \<and> (if es_status (sh_session h) = RS_stopped
                then sh_stop_signal h \<and> es_terminal_reason (sh_session h) = Some ''stopped''
                else True))"

section \<open>The progress event stream\<close>

text \<open>
  Modelled from the spec: the emitter of the Engine's progress events, of which the
  repository holds only the receiving side (the \<open>SSEEvent\<close> type and the page's
  handler). The specification lists nine kinds of event: cycle-started, path-started,
  path-completed, path-stopped with a reason that is user, budget or error,
  synthesis-complete, intelligence-updated, initiative-discovered, session-complete, and
  error with a message and a recoverable flag; each event is timestamped and
  session-scoped. The other payload fields are those the interfaces of the types module
  declare for the kind.
\<close>

datatype StopReason = Reason_user | Reason_budget | Reason_error

fun StopReason_literal :: "StopReason \<Rightarrow> string" where
  "StopReason_literal Reason_user = ''user''"
| "StopReason_literal Reason_budget = ''budget''"
| "StopReason_literal Reason_error = ''error''"

datatype ProgressEvent =
  CycleStarted nat string
| PathStarted string string string
| PathCompleted string string nat
| PathStopped string string StopReason
| SynthesisComplete
| IntelligenceUpdated json
| InitiativeDiscovered string string "string list"
| SessionComplete nat nat json
| ErrorEvent string bool

text \<open>
  Modelled from the spec: the kind of each event, under the name the code has for it, and
  the event's data.
\<close>

fun event_kind :: "ProgressEvent \<Rightarrow> SSEEventType" where
  "event_kind (CycleStarted cycle_number plan_summary) = Ev_cycle_started"
| "event_kind (PathStarted path_id topic priority) = Ev_subagent_started"
| "event_kind (PathCompleted path_id topic findings_count) = Ev_subagent_completed"
| "event_kind (PathStopped path_id topic reason) = Ev_subagent_stopped"
| "event_kind SynthesisComplete = Ev_synthesis_complete"
| "event_kind (IntelligenceUpdated dashboard_content) = Ev_findings_updated"
| "event_kind (InitiativeDiscovered initiative_name description evidence) = Ev_initiative_discovered"
| "event_kind (SessionComplete total_cycles total_findings final_confidence) = Ev_research_complete"
| "event_kind (ErrorEvent msg recoverable) = Ev_error"

fun event_data :: "ProgressEvent \<Rightarrow> (string \<times> json) list" where
  "event_data (CycleStarted cycle_number plan_summary) =
     [(''cycle_number'', JNum (int cycle_number)), (''plan_summary'', JStr plan_summary)]"
| "event_data (PathStarted path_id topic priority) =
     [(''path_id'', JStr path_id), (''topic'', JStr topic), (''priority'', JStr priority)]"
| "event_data (PathCompleted path_id topic findings_count) =
     [(''path_id'', JStr path_id), (''topic'', JStr topic),
      (''findings_count'', JNum (int findings_count))]"
| "event_data (PathStopped path_id topic reason) =
     [(''path_id'', JStr path_id), (''topic'', JStr topic),
      (''reason'', JStr (StopReason_literal reason))]"
| "event_data SynthesisComplete = []"
| "event_data (IntelligenceUpdated dashboard_content) =
     [(''dashboard_content'', dashboard_content)]"
| "event_data (InitiativeDiscovered initiative_name description evidence) =
     [(''initiative_name'', JStr initiative_name), (''description'', JStr description),
      (''evidence'', JArr (map JStr evidence))]"
| "event_data (SessionComplete total_cycles total_findings final_confidence) =
     [(''total_cycles'', JNum (int total_cycles)), (''total_findings'', JNum (int total_findings)),
      (''final_confidence'', final_confidence)]"
| "event_data (ErrorEvent msg recoverable) =
     [(''message'', JStr msg), (''recoverable'', JBool recoverable)]"

text \<open>
  Modelled from the spec: emitting an event on a session's stream stamps it with the time
  and the session.
\<close>

definition emit :: "string \<Rightarrow> string \<Rightarrow> ProgressEvent \<Rightarrow> SSEEvent" where
  "emit stamp session_id p =
     \<lparr>ev_type = event_kind p, ev_timestamp = stamp, ev_session_id = session_id,
      ev_data = event_data p\<rparr>"

text \<open>
  The payload that the specification's event list gives two of the kinds, as a check on a
  received event: a path-stopped event carries a reason that is user, budget or error,
  and an error event carries a message and a recoverable flag.
\<close>

definition spec_payload :: "SSEEvent \<Rightarrow> bool" where
  "spec_payload event =
     (case ev_type event of
        Ev_subagent_stopped \<Rightarrow>
          data_get event ''reason''
            \<in> set [Some (JStr ''user''), Some (JStr ''budget''), Some (JStr ''error'')]
      | Ev_error \<Rightarrow>
          (case data_get event ''message'' of Some (JStr m) \<Rightarrow> True | _ \<Rightarrow> False) \<and>
          (case data_get event ''recoverable'' of Some (JBool b) \<Rightarrow> True | _ \<Rightarrow> False)
      | _ \<Rightarrow> True)"

section \<open>Status values\<close>

text \<open>
  Claim C5. The status of a session is exactly one of pending, running, completed,
  stopped and failed, and the status of a path exactly one of active, completed,
  stopped, exhausted and error: every value of the two types is one of the five
  listed, the five stand for the five distinct literals, and the badge table of the
  page has an entry for exactly the five session statuses.
\<close>

theorem status_values:
  "rs_status s \<in> set [RS_pending, RS_running, RS_completed, RS_stopped, RS_failed]
   \<and> rp_status p \<in> set [PS_active, PS_completed, PS_stopped, PS_exhausted, PS_error]
   \<and> map ResearchStatus_literal [RS_pending, RS_running, RS_completed, RS_stopped, RS_failed]
       = [''pending'', ''running'', ''completed'', ''stopped'', ''failed'']
   \<and> map PathStatus_literal [PS_active, PS_completed, PS_stopped, PS_exhausted, PS_error]
       = [''active'', ''completed'', ''stopped'', ''exhausted'', ''error'']
   \<and> dom StatusBadge_config = range ResearchStatus_literal"
proof -
  have a: "rs_status s \<in> set [RS_pending, RS_running, RS_completed, RS_stopped, RS_failed]"
    by (cases "rs_status s") simp_all
  have b: "rp_status p \<in> set [PS_active, PS_completed, PS_stopped, PS_exhausted, PS_error]"
    by (cases "rp_status p") simp_all
  have u: "(UNIV :: ResearchStatus set)
             = {RS_pending, RS_running, RS_completed, RS_stopped, RS_failed}"
  proof -
    have "x \<in> {RS_pending, RS_running, RS_completed, RS_stopped, RS_failed}" for x
      by (cases x) simp_all
    then show ?thesis by blast
  qed
  have d: "dom StatusBadge_config = range ResearchStatus_literal"
    unfolding u by (auto simp: StatusBadge_config_def split: if_splits)
  show ?thesis using a b d by simp
qed

section \<open>Confidence levels and their rendering\<close>

text \<open>
  Claim C8. The confidence levels form the strict chain none, low, medium, high,
  sufficient, the progress bar of a level takes the fraction 0, 1/4, 1/2, 3/4 or all of
  the track, and the rendering is strictly monotone: of two levels, the lower one gets
  the strictly smaller fraction.
\<close>

theorem confidence_bar_monotone:
  "level_rank Conf_none < level_rank Conf_low \<and> level_rank Conf_low < level_rank Conf_medium
   \<and> level_rank Conf_medium < level_rank Conf_high
   \<and> level_rank Conf_high < level_rank Conf_sufficient
   \<and> map bar_fraction [Conf_none, Conf_low, Conf_medium, Conf_high, Conf_sufficient]
       = [Some 0, Some (1 / 4), Some (1 / 2), Some (3 / 4), Some 1]
   \<and> (level_rank a < level_rank b \<longrightarrow>
        (\<exists>x y. bar_fraction a = Some x \<and> bar_fraction b = Some y \<and> x < y))"
proof -
  have bf: "bar_fraction l = Some (of_nat (level_rank l) / 4)" for l
    by (cases l) (simp_all add: bar_fraction_def tailwind_width_def)
  have m: "level_rank a < level_rank b \<longrightarrow>
        (\<exists>x y. bar_fraction a = Some x \<and> bar_fraction b = Some y \<and> x < y)"
  proof
    assume lt: "level_rank a < level_rank b"
    have "(of_nat (level_rank a) / 4 :: rat) < of_nat (level_rank b) / 4"
      using lt by (simp add: divide_strict_right_mono)
    then show "\<exists>x y. bar_fraction a = Some x \<and> bar_fraction b = Some y \<and> x < y"
      using bf [of a] bf [of b] by blast
  qed
  show ?thesis using m by (simp add: bar_fraction_def tailwind_width_def)
qed

theorem confidence_bar_monotone_witness:
  "level_rank Conf_low < level_rank Conf_high
   \<and> bar_fraction Conf_low = Some (1 / 4) \<and> bar_fraction Conf_high = Some (3 / 4)
   \<and> (1 / 4 :: rat) < 3 / 4"
  using confidence_bar_monotone [of Conf_low Conf_high]
  by (simp add: bar_fraction_def tailwind_width_def)

text \<open>
  Claim C4. A confidence assessment is total over the six categories, and an absent level
  is treated as none: the properties of \<open>ConfidenceAssessment\<close> are the six category
  literals, which are also the keys the page iterates over, each once; the page renders
  one card for every category, with the level of that category's content, and with the
  level none where the dashboard has no content for the category.
\<close>

theorem confidence_total:
  "assessment_level a category
     \<in> set [Conf_none, Conf_low, Conf_medium, Conf_high, Conf_sufficient]
   \<and> map FindingCategory_literal categoryConfig_keys = ConfidenceAssessment_keys
   \<and> distinct categoryConfig_keys \<and> set categoryConfig_keys = UNIV
   \<and> map card_category (render_cards d) = categoryConfig_keys
   \<and> map card_level (render_cards d) = map (card_confidence d) categoryConfig_keys
   \<and> (dc_content d category = None \<longrightarrow> card_confidence d category = Conf_none)
   \<and> (\<forall>content. dc_content d category = Some content \<longrightarrow>
         card_confidence d category = cc_confidence content)"
proof -
  have u: "set categoryConfig_keys = UNIV"
  proof -
    have "x \<in> set categoryConfig_keys" for x
      by (cases x) (simp_all add: categoryConfig_keys_def)
    then show ?thesis by blast
  qed
  have k: "map FindingCategory_literal categoryConfig_keys = ConfidenceAssessment_keys"
    by (simp add: categoryConfig_keys_def ConfidenceAssessment_keys_def)
  have di: "distinct categoryConfig_keys"
    by (simp add: categoryConfig_keys_def)
  have c: "map card_category (render_cards d) = categoryConfig_keys"
    by (simp add: render_cards_def render_card_def Let_def comp_def)
  have l: "map card_level (render_cards d) = map (card_confidence d) categoryConfig_keys"
    by (simp add: render_cards_def render_card_def Let_def comp_def)
  have t: "assessment_level a category
     \<in> set [Conf_none, Conf_low, Conf_medium, Conf_high, Conf_sufficient]"
    by (cases "assessment_level a category") simp_all
  show ?thesis using t u k di c l by (simp add: card_confidence_def)
qed

theorem confidence_total_witness:
  "dc_content \<lparr>dc_id = ''d1'', dc_initiative_id = ''i1'',
      dc_content = [Cat_people \<mapsto> \<lparr>cc_summary = ''CTO named'', cc_findings = [''f1''],
                                   cc_insights = None, cc_confidence = Conf_medium\<rparr>],
      dc_portfolio_recommendations = None, dc_created_at = ''t0'', dc_updated_at = ''t1''\<rparr>
     Cat_market = None
   \<and> card_confidence \<lparr>dc_id = ''d1'', dc_initiative_id = ''i1'',
      dc_content = [Cat_people \<mapsto> \<lparr>cc_summary = ''CTO named'', cc_findings = [''f1''],
                                   cc_insights = None, cc_confidence = Conf_medium\<rparr>],
      dc_portfolio_recommendations = None, dc_created_at = ''t0'', dc_updated_at = ''t1''\<rparr>
     Cat_market = Conf_none
   \<and> card_confidence \<lparr>dc_id = ''d1'', dc_initiative_id = ''i1'',
      dc_content = [Cat_people \<mapsto> \<lparr>cc_summary = ''CTO named'', cc_findings = [''f1''],
                                   cc_insights = None, cc_confidence = Conf_medium\<rparr>],
      dc_portfolio_recommendations = None, dc_created_at = ''t0'', dc_updated_at = ''t1''\<rparr>
     Cat_people = Conf_medium
   \<and> map card_level (render_cards \<lparr>dc_id = ''d1'', dc_initiative_id = ''i1'',
      dc_content = [Cat_people \<mapsto> \<lparr>cc_summary = ''CTO named'', cc_findings = [''f1''],
                                   cc_insights = None, cc_confidence = Conf_medium\<rparr>],
      dc_portfolio_recommendations = None, dc_created_at = ''t0'', dc_updated_at = ''t1''\<rparr>)
     = [Conf_medium, Conf_none, Conf_none, Conf_none, Conf_none, Conf_none]"
  using confidence_total [of _ Cat_market "\<lparr>dc_id = ''d1'', dc_initiative_id = ''i1'',
      dc_content = [Cat_people \<mapsto> \<lparr>cc_summary = ''CTO named'', cc_findings = [''f1''],
                                   cc_insights = None, cc_confidence = Conf_medium\<rparr>],
      dc_portfolio_recommendations = None, dc_created_at = ''t0'', dc_updated_at = ''t1''\<rparr>"]
    confidence_total [of _ Cat_people "\<lparr>dc_id = ''d1'', dc_initiative_id = ''i1'',
      dc_content = [Cat_people \<mapsto> \<lparr>cc_summary = ''CTO named'', cc_findings = [''f1''],
                                   cc_insights = None, cc_confidence = Conf_medium\<rparr>],
      dc_portfolio_recommendations = None, dc_created_at = ''t0'', dc_updated_at = ''t1''\<rparr>"]
  by (simp add: categoryConfig_keys_def card_confidence_def)

section \<open>The dispatch cap\<close>

text \<open>
  Claim C1. In every cycle at most five paths are dispatched, however many assignments
  the Planner returns: the cycle creates one task for each of the first five assignments
  and no other, so the number of tasks is the smaller of five and the number of
  assignments, and no more results than tasks come back.
\<close>

theorem dispatch_cap:
  "length (execute_cycle_tasks assignments) = min 5 (length assignments)
   \<and> length (execute_cycle_tasks assignments) \<le> 5
   \<and> length (execute_cycle run_research_subagent assignments)
       \<le> length (execute_cycle_tasks assignments)
   \<and> length (execute_cycle run_research_subagent assignments) \<le> 5"
proof -
  have t: "length (execute_cycle_tasks assignments) = min 5 (length assignments)"
    by (simp add: execute_cycle_tasks_def min_def)
  have f: "length (List.map_filter g xs) \<le> length xs" for g :: "'x \<Rightarrow> 'y option" and xs
    by (simp add: List.map_filter_def)
  have e: "length (execute_cycle run_research_subagent assignments)
       \<le> length (execute_cycle_tasks assignments)"
    unfolding execute_cycle_def Let_def
    using f [of _ "map run_research_subagent (execute_cycle_tasks assignments)"] by simp
  show ?thesis using t e by simp
qed

section \<open>The API client's request helper\<close>

text \<open>
  Claim C9, as stated: a response that is not ok makes \<open>request\<close> throw an
  \<open>ApiError\<close> with that response's status and a message, \<open>HTTP\<close> and the status
  where the error body has none, and \<open>request\<close> returns normally, with the parsed body,
  exactly when the response is ok. This fails for an ok response whose body is not JSON:
  \<open>response.json()\<close> rejects and so does \<open>request\<close>.
\<close>

theorem request_ok_counterexample:
  "request (Inr \<lparr>ok = True, status = 200, json_body = None\<rparr>)
     = Inl (SyntaxError ''Unexpected end of JSON input'')"
  by (simp add: request_def)

text \<open>
  Claim C9, amended. A response that is not ok and whose body is not the JSON value
  \<open>null\<close> makes \<open>request\<close> throw an \<open>ApiError\<close> with exactly that response's
  status; its message is \<open>Unknown error\<close> for a body that is not JSON, the body's
  \<open>message\<close> when that is a non-empty string, and \<open>HTTP\<close> followed by the status when
  the parsed body has no \<open>message\<close> or a falsy one. \<open>request\<close> returns normally
  exactly when the response is ok and its body parses as JSON, and then returns the
  parsed body; an ok response with a body that is not JSON is rejected with the parser's
  error.
\<close>

theorem request_outcomes:
  "(\<not> ok r \<and> json_body r = None \<longrightarrow>
      request (Inr r) = Inl (ApiError (status r) ''Unknown error''))
   \<and> (\<not> ok r \<and> json_body r = Some (JObj kvs) \<and> map_of kvs ''message'' = Some (JStr m)
        \<and> m \<noteq> [] \<longrightarrow>
      request (Inr r) = Inl (ApiError (status r) m))
   \<and> (\<not> ok r \<and> json_body r = Some body \<and> js_member body ''message'' = Inr v
        \<and> \<not> js_truthy v \<longrightarrow>
      request (Inr r) = Inl (ApiError (status r) (''HTTP '' @ decimal (status r))))
   \<and> (\<not> ok r \<and> json_body r \<noteq> Some JNull \<longrightarrow>
      (\<exists>msg. request (Inr r) = Inl (ApiError (status r) msg)))
   \<and> (ok r \<and> json_body r = Some body \<longrightarrow> request (Inr r) = Inr body)
   \<and> (ok r \<and> json_body r = None \<longrightarrow> (\<exists>msg. request (Inr r) = Inl (SyntaxError msg)))
   \<and> ((\<exists>body. request (Inr r) = Inr body) \<longleftrightarrow> ok r \<and> json_body r \<noteq> None)"
proof -
  have a: "\<not> ok r \<and> json_body r = None \<longrightarrow>
      request (Inr r) = Inl (ApiError (status r) ''Unknown error'')"
    by (simp add: request_def js_template_def)
  have b: "\<not> ok r \<and> json_body r = Some (JObj kvs) \<and> map_of kvs ''message'' = Some (JStr m)
        \<and> m \<noteq> [] \<longrightarrow>
      request (Inr r) = Inl (ApiError (status r) m)"
    by (simp add: request_def js_template_def)
  have c: "\<not> ok r \<and> json_body r = Some body \<and> js_member body ''message'' = Inr v
        \<and> \<not> js_truthy v \<longrightarrow>
      request (Inr r) = Inl (ApiError (status r) (''HTTP '' @ decimal (status r)))"
    by (simp add: request_def)
  have d: "\<not> ok r \<and> json_body r \<noteq> Some JNull \<longrightarrow>
      (\<exists>msg. request (Inr r) = Inl (ApiError (status r) msg))"
  proof (cases "json_body r")
    case None
    then show ?thesis by (simp add: request_def)
  next
    case (Some j)
    then show ?thesis by (cases j) (simp_all add: request_def)
  qed
  have e: "ok r \<and> json_body r = Some body \<longrightarrow> request (Inr r) = Inr body"
    by (simp add: request_def)
  have f: "ok r \<and> json_body r = None \<longrightarrow> (\<exists>msg. request (Inr r) = Inl (SyntaxError msg))"
    by (simp add: request_def)
  have g: "(\<exists>body. request (Inr r) = Inr body) \<longleftrightarrow> ok r \<and> json_body r \<noteq> None"
    by (auto simp: request_def Let_def split: option.splits sum.splits)
  show ?thesis using a b c d e f g by blast
qed

theorem request_outcomes_witness:
  "request (Inr \<lparr>ok = False, status = 502, json_body = None\<rparr>)
     = Inl (ApiError 502 ''Unknown error'')
   \<and> request (Inr \<lparr>ok = False, status = 404,
        json_body = Some (JObj [(''message'', JStr ''Session not found'')])\<rparr>)
     = Inl (ApiError 404 ''Session not found'')
   \<and> request (Inr \<lparr>ok = False, status = 500, json_body = Some (JObj [(''detail'', JStr ''boom'')])\<rparr>)
     = Inl (ApiError 500 ''HTTP 500'')
   \<and> request (Inr \<lparr>ok = True, status = 200, json_body = Some (JObj [(''status'', JStr ''stopped'')])\<rparr>)
     = Inr (JObj [(''status'', JStr ''stopped'')])"
proof -
  have s: "decimal 500 = ''500''" by code_simp
  show ?thesis
    using request_outcomes [of "\<lparr>ok = False, status = 502, json_body = None\<rparr>"]
      request_outcomes [of "\<lparr>ok = False, status = 404,
        json_body = Some (JObj [(''message'', JStr ''Session not found'')])\<rparr>"
        "[(''message'', JStr ''Session not found'')]" "''Session not found''"]
      request_outcomes [of "\<lparr>ok = False, status = 500,
        json_body = Some (JObj [(''detail'', JStr ''boom'')])\<rparr>" _ _
        "JObj [(''detail'', JStr ''boom'')]" None]
      request_outcomes [of "\<lparr>ok = True, status = 200,
        json_body = Some (JObj [(''status'', JStr ''stopped'')])\<rparr>" _ _
        "JObj [(''status'', JStr ''stopped'')]"]
    by (simp add: s)
qed

text \<open>
  The case the amended claim leaves open: for an error body that is the JSON value
  \<open>null\<close>, reading \<open>error.message\<close> throws before the \<open>ApiError\<close> is built.
\<close>

theorem request_null_body:
  "request (Inr \<lparr>ok = False, status = 500, json_body = Some JNull\<rparr>)
     = Inl (TypeError ''Cannot read properties of null'')"
  by (simp add: request_def)

text \<open>
  Of the six members of \<open>researchApi\<close>, the four that change a session (start, stop,
  stopPath, followUp) are the POST requests; get and getDashboard are reads.
\<close>

theorem researchApi_control_operations:
  "map fst (researchApi sessionId pathId initiativeId data)
     = [''start'', ''get'', ''stop'', ''stopPath'', ''followUp'', ''getDashboard'']
   \<and> map fst (filter (\<lambda>member. call_method (snd member) = ''POST'')
                  (researchApi sessionId pathId initiativeId data))
     = [''start'', ''stop'', ''stopPath'', ''followUp'']
   \<and> map fst (filter (\<lambda>member. call_method (snd member) = ''GET'')
                  (researchApi sessionId pathId initiativeId data))
     = [''get'', ''getDashboard'']"
  by (simp add: researchApi_def researchApi_start_def researchApi_get_def researchApi_stop_def
      researchApi_stopPath_def researchApi_followUp_def researchApi_getDashboard_def)

section \<open>Messages of the event source\<close>

lemma run_events_calls:
  "set (onMessage_calls (run_events P evs h))
     \<subseteq> set (onMessage_calls h) \<union> {v. \<exists>data. Message data \<in> set evs \<and> P data = Some v}"
proof (induction evs arbitrary: h)
  case Nil
  then show ?case by simp
next
  case (Cons ev evs)
  have step: "set (onMessage_calls (dispatch P ev h))
     \<subseteq> set (onMessage_calls h) \<union> {v. \<exists>data. ev = Message data \<and> P data = Some v}"
    by (cases ev) (auto simp: onopen_def onmessage_def onerror_def split: option.splits)
  show ?case using Cons.IH [of "dispatch P ev h"] step by auto
qed

text \<open>
  Claim C10. For every message the hook receives, \<open>onMessage\<close> is invoked only with the
  value parsed from the message's data: a message whose data does not parse invokes no
  callback, leaves the connection as it is and does not change \<open>isConnected\<close>. Of the
  events of the event source, only the error event closes the connection and takes
  \<open>isConnected\<close> from true to false, and it always does. Over any sequence of events,
  every value \<open>onMessage\<close> was called with is the parse of the data of a message of the
  sequence.
\<close>

theorem useSSE_messages:
  "onMessage_calls (dispatch P (Message data) h)
     = onMessage_calls h @ (if source_open h then (case P data of None \<Rightarrow> [] | Some v \<Rightarrow> [v]) else [])
   \<and> (P data = None \<longrightarrow>
        onMessage_calls (dispatch P (Message data) h) = onMessage_calls h
        \<and> eventSourceRef (dispatch P (Message data) h) = eventSourceRef h
        \<and> isConnected (dispatch P (Message data) h) = isConnected h
        \<and> connectionError (dispatch P (Message data) h) = connectionError h)
   \<and> (eventSourceRef (dispatch P ev h) \<noteq> eventSourceRef h \<longrightarrow> ev = Error)
   \<and> (isConnected h \<and> \<not> isConnected (dispatch P ev h) \<longrightarrow> ev = Error)
   \<and> (source_open h \<longrightarrow>
        \<not> source_open (dispatch P Error h) \<and> \<not> isConnected (dispatch P Error h))
   \<and> set (onMessage_calls (run_events P evs h))
        \<subseteq> set (onMessage_calls h) \<union> {v. \<exists>data. Message data \<in> set evs \<and> P data = Some v}"
proof -
  have a: "onMessage_calls (dispatch P (Message data) h)
     = onMessage_calls h @ (if source_open h then (case P data of None \<Rightarrow> [] | Some v \<Rightarrow> [v]) else [])"
    by (simp add: onmessage_def split: option.splits)
  have b: "P data = None \<longrightarrow>
        onMessage_calls (dispatch P (Message data) h) = onMessage_calls h
        \<and> eventSourceRef (dispatch P (Message data) h) = eventSourceRef h
        \<and> isConnected (dispatch P (Message data) h) = isConnected h
        \<and> connectionError (dispatch P (Message data) h) = connectionError h"
    by (simp add: onmessage_def)
  have c: "eventSourceRef (dispatch P ev h) \<noteq> eventSourceRef h \<longrightarrow> ev = Error"
    by (cases ev) (simp_all add: onopen_def onmessage_def split: option.splits)
  have d: "isConnected h \<and> \<not> isConnected (dispatch P ev h) \<longrightarrow> ev = Error"
    by (cases ev) (simp_all add: onopen_def onmessage_def split: option.splits)
  have e: "source_open h \<longrightarrow>
        \<not> source_open (dispatch P Error h) \<and> \<not> isConnected (dispatch P Error h)"
    by (simp add: onerror_def source_open_def)
  show ?thesis using a b c d e run_events_calls [of P evs h] by blast
qed

theorem useSSE_messages_witness:
  "(\<lambda>d. if d = ''{}'' then Some (JObj []) else None) ''oops'' = None
   \<and> source_open \<lparr>isConnected = True, connectionError = None, eventSourceRef = Some True,
        onMessage_calls = [], onError_calls = 0, onOpen_calls = 0, console_errors = 0\<rparr>
   \<and> dispatch (\<lambda>d. if d = ''{}'' then Some (JObj []) else None) (Message ''oops'')
        \<lparr>isConnected = True, connectionError = None, eventSourceRef = Some True,
         onMessage_calls = [], onError_calls = 0, onOpen_calls = 0, console_errors = 0\<rparr>
      = \<lparr>isConnected = True, connectionError = None, eventSourceRef = Some True,
         onMessage_calls = [], onError_calls = 0, onOpen_calls = 0, console_errors = 1\<rparr>
   \<and> dispatch (\<lambda>d. if d = ''{}'' then Some (JObj []) else None) Error
        \<lparr>isConnected = True, connectionError = None, eventSourceRef = Some True,
         onMessage_calls = [], onError_calls = 0, onOpen_calls = 0, console_errors = 0\<rparr>
      = \<lparr>isConnected = False, connectionError = Some ''Connection lost'',
         eventSourceRef = Some False,
         onMessage_calls = [], onError_calls = 1, onOpen_calls = 0, console_errors = 0\<rparr>
   \<and> onMessage_calls (run_events (\<lambda>d. if d = ''{}'' then Some (JObj []) else None)
        [Message ''oops'', Message ''{}'', Error, Message ''{}'']
        \<lparr>isConnected = True, connectionError = None, eventSourceRef = Some True,
         onMessage_calls = [], onError_calls = 0, onOpen_calls = 0, console_errors = 0\<rparr>)
      = [JObj []]"
  using useSSE_messages [of "\<lambda>d. if d = ''{}'' then Some (JObj []) else None" "''oops''"
      "\<lparr>isConnected = True, connectionError = None, eventSourceRef = Some True,
        onMessage_calls = [], onError_calls = 0, onOpen_calls = 0, console_errors = 0\<rparr>"
      Error "[Message ''oops'', Message ''{}'', Error, Message ''{}'']"]
  by (simp add: source_open_def onmessage_def onerror_def)

section \<open>The page's stop handler\<close>

lemma stopped_update_same:
  "rs_status sess = RS_stopped \<Longrightarrow> sess\<lparr>rs_status := RS_stopped\<rparr> = sess"
  by (cases sess) simp

text \<open>
  The page's stop handler. After a successful stop no event stream is attached, so a
  message changes nothing, and the stop button is not shown; a second successful stop
  after a first changes nothing. On a page whose session is already stopped, a stop
  request that succeeds leaves the page state unchanged, while one that is rejected
  leaves the session as it is and sets the page's error to the message of what was
  thrown.
\<close>

theorem stop_on_stopped_page:
  "handleStopResearch (Inr w) (handleStopResearch (Inr v) s) = handleStopResearch (Inr v) s
   \<and> activityLog (handleStopResearch r s) = activityLog s
   \<and> \<not> stream_attached (handleStopResearch (Inr v) s)
   \<and> on_stream_message now event (handleStopResearch (Inr v) s) = handleStopResearch (Inr v) s
   \<and> \<not> stop_button_shown (handleStopResearch (Inr v) s)
   \<and> ((\<exists>sess. session s = Some sess \<and> rs_status sess = RS_stopped) \<longrightarrow>
        handleStopResearch (Inr v) s = s \<and> session (handleStopResearch r s) = session s)
   \<and> handleStopResearch (Inl err) s = s\<lparr>error := Some (JStr (thrown_message err))\<rparr>"
proof -
  have a: "handleStopResearch (Inr w) (handleStopResearch (Inr v) s) = handleStopResearch (Inr v) s"
    by (cases "session s") (simp_all add: handleStopResearch_def)
  have b: "activityLog (handleStopResearch r s) = activityLog s"
    by (cases r) (simp_all add: handleStopResearch_def)
  have c: "\<not> stream_attached (handleStopResearch (Inr v) s)"
    by (cases "session s") (simp_all add: handleStopResearch_def stream_attached_def)
  have d: "on_stream_message now event (handleStopResearch (Inr v) s) = handleStopResearch (Inr v) s"
    using c by (simp add: on_stream_message_def)
  have e: "\<not> stop_button_shown (handleStopResearch (Inr v) s)"
    by (cases "session s") (simp_all add: handleStopResearch_def stop_button_shown_def)
  have f: "(\<exists>sess. session s = Some sess \<and> rs_status sess = RS_stopped) \<longrightarrow>
        handleStopResearch (Inr v) s = s"
    by (auto simp: handleStopResearch_def stopped_update_same)
  have g: "(\<exists>sess. session s = Some sess \<and> rs_status sess = RS_stopped) \<longrightarrow>
        session (handleStopResearch r s) = session s"
    by (cases r) (auto simp: handleStopResearch_def stopped_update_same)
  have h: "handleStopResearch (Inl err) s = s\<lparr>error := Some (JStr (thrown_message err))\<rparr>"
    by (simp add: handleStopResearch_def)
  show ?thesis using a b c d e f g h by blast
qed

theorem stop_on_stopped_page_witness:
  "session \<lparr>session = Some \<lparr>rs_id = ''s1'', rs_initiative_id = ''i1'', rs_triggered_by = ''u1'',
        rs_status = RS_stopped, rs_follow_up_question = None, rs_started_at = Some ''t0'',
        rs_completed_at = None, rs_error_message = None\<rparr>,
      dashboard = Some JNull, activityLog = [], activePaths = Map.empty, error = Some JNull,
      followUpQuestion = [], isSubmittingFollowUp = False\<rparr>
     = Some \<lparr>rs_id = ''s1'', rs_initiative_id = ''i1'', rs_triggered_by = ''u1'',
        rs_status = RS_stopped, rs_follow_up_question = None, rs_started_at = Some ''t0'',
        rs_completed_at = None, rs_error_message = None\<rparr>
   \<and> handleStopResearch (Inr JNull)
       \<lparr>session = Some \<lparr>rs_id = ''s1'', rs_initiative_id = ''i1'', rs_triggered_by = ''u1'',
          rs_status = RS_stopped, rs_follow_up_question = None, rs_started_at = Some ''t0'',
          rs_completed_at = None, rs_error_message = None\<rparr>,
        dashboard = Some JNull, activityLog = [], activePaths = Map.empty, error = Some JNull,
        followUpQuestion = [], isSubmittingFollowUp = False\<rparr>
     = \<lparr>session = Some \<lparr>rs_id = ''s1'', rs_initiative_id = ''i1'', rs_triggered_by = ''u1'',
          rs_status = RS_stopped, rs_follow_up_question = None, rs_started_at = Some ''t0'',
          rs_completed_at = None, rs_error_message = None\<rparr>,
        dashboard = Some JNull, activityLog = [], activePaths = Map.empty, error = Some JNull,
        followUpQuestion = [], isSubmittingFollowUp = False\<rparr>"
  using stop_on_stopped_page [of JNull JNull
      "\<lparr>session = Some \<lparr>rs_id = ''s1'', rs_initiative_id = ''i1'', rs_triggered_by = ''u1'',
          rs_status = RS_stopped, rs_follow_up_question = None, rs_started_at = Some ''t0'',
          rs_completed_at = None, rs_error_message = None\<rparr>,
        dashboard = Some JNull, activityLog = [], activePaths = Map.empty, error = Some JNull,
        followUpQuestion = [], isSubmittingFollowUp = False\<rparr>"
      "Inr JNull"]
  by simp

section \<open>Stop on a stopped session\<close>

lemma engine_cycle_stopped:
  assumes "es_status s = RS_running" and "es_status (engine_cycle ci s) = RS_stopped"
  shows "(ci_stop_before_dispatch ci \<or> ci_stop_during_cycle ci)
         \<and> es_terminal_reason (engine_cycle ci s) = Some ''stopped''"
  using assms by (auto simp: engine_cycle_def Let_def split: if_splits option.splits)

lemma handle_inv_start: "handle_inv (StartSession a)"
  by (simp add: handle_inv_def StartSession_def start_session_def)

lemma handle_inv_Stop: "handle_inv h \<Longrightarrow> handle_inv (Stop h)"
  by (simp add: handle_inv_def Stop_def)

lemma handle_inv_engine_step:
  assumes "handle_inv h"
  shows "handle_inv (engine_step ci h)"
proof (cases "es_status (sh_session h) = RS_running")
  case False
  then show ?thesis using assms by (simp add: engine_step_def)
next
  case True
  let ?before = "sh_stop_signal h \<or> ci_stop_before_dispatch ci"
  let ?during = "?before \<or> ci_stop_during_cycle ci"
  let ?ci = "ci\<lparr>ci_stop_before_dispatch := ?before, ci_stop_during_cycle := ?during\<rparr>"
  let ?s = "engine_cycle ?ci (sh_session h)"
  have ev: "sh_terminal_events h = []"
    using assms True by (simp add: handle_inv_def)
  have st: "es_status ?s = RS_stopped \<Longrightarrow> ?during \<and> es_terminal_reason ?s = Some ''stopped''"
    using engine_cycle_stopped [OF True, of ?ci] by auto
  have sess: "sh_session (engine_step ci h) = ?s"
    using True by (simp add: engine_step_def Let_def)
  have sig: "sh_stop_signal (engine_step ci h) = ?during"
    using True by (simp add: engine_step_def Let_def)
  have evs: "sh_terminal_events (engine_step ci h)
      = (if es_status ?s \<noteq> RS_running then [(es_status ?s, es_terminal_reason ?s)] else [])"
    using True ev by (simp add: engine_step_def Let_def)
  show ?thesis
    unfolding handle_inv_def sess sig evs using st by auto
qed

lemma handle_inv_run: "handle_inv h \<Longrightarrow> handle_inv (run_actions acts h)"
proof (induction acts arbitrary: h)
  case Nil
  then show ?case by simp
next
  case (Cons act acts)
  have "handle_inv (handle_action act h)"
    using Cons.prems by (cases act) (simp_all add: handle_inv_Stop handle_inv_engine_step)
  then show ?case using Cons.IH by simp
qed

lemma stopped_Stop_same:
  "sh_stop_signal h \<Longrightarrow> Stop h = h"
  by (simp add: Stop_def)

lemma stopped_run_same:
  assumes "es_status (sh_session h) = RS_stopped" and "sh_stop_signal h"
  shows "run_actions later h = h"
proof (induction later)
  case Nil
  then show ?case by simp
next
  case (Cons act later)
  have "handle_action act h = h"
    using assms by (cases act) (simp_all add: Stop_def engine_step_def)
  then show ?case using Cons.IH by simp
qed

text \<open>
  Claim C6. Invoking Stop a second time on a session that is already stopped has no
  additional effect and emits no duplicate terminal event: for every handle reached from
  StartSession by any interleaving of Stop calls and Engine cycles, if its session is
  stopped then Stop leaves the handle as it is, whatever Stop calls and cycles follow the
  repeated Stop leave it as it is too, and the stream holds exactly one terminal event,
  the one for the stop. Two Stop calls in a row are the same as one on any handle.
\<close>

theorem stop_twice:
  assumes "h = run_actions acts (StartSession a)"
    and "es_status (sh_session h) = RS_stopped"
  shows "Stop h = h
         \<and> run_actions (Call_Stop # later) h = h
         \<and> sh_terminal_events (run_actions (Call_Stop # later) h) = sh_terminal_events h
         \<and> sh_terminal_events h = [(RS_stopped, Some ''stopped'')]
         \<and> Stop (Stop g) = Stop g"
proof -
  have inv: "handle_inv h"
    using assms(1) handle_inv_run [OF handle_inv_start] by simp
  have sig: "sh_stop_signal h"
    using inv assms(2) by (simp add: handle_inv_def)
  have ev: "sh_terminal_events h = [(RS_stopped, Some ''stopped'')]"
    using inv assms(2) by (simp add: handle_inv_def)
  have same: "Stop h = h"
    using sig by (rule stopped_Stop_same)
  have run: "run_actions (Call_Stop # later) h = h"
    using stopped_run_same [OF assms(2) sig, of "Call_Stop # later"] .
  have twice: "Stop (Stop g) = Stop g"
    by (simp add: Stop_def)
  show ?thesis using same run ev twice by simp
qed

theorem stop_twice_witness:
  "es_status (sh_session
     (run_actions
      [Engine_cycle
         \<lparr>ci_stop_before_dispatch = False, ci_stop_during_cycle = False,
          ci_plan = Some \<lparr>plan_assignments =
                            [\<lparr>as_id = ''a1'', as_topic = ''leadership'', as_priority = 0\<rparr>],
                          plan_done = False\<rparr>,
          ci_worker = (\<lambda>a. Finished 4), ci_new_findings = 4,
          ci_assessment = \<lparr>ca_people = Conf_low, ca_initiative = Conf_none,
            ca_technology = Conf_none, ca_competitive = Conf_none, ca_financial = Conf_none,
            ca_market = Conf_none\<rparr>\<rparr>,
       Call_Stop,
       Engine_cycle
         \<lparr>ci_stop_before_dispatch = False, ci_stop_during_cycle = False,
          ci_plan = Some \<lparr>plan_assignments =
                            [\<lparr>as_id = ''a1'', as_topic = ''leadership'', as_priority = 0\<rparr>],
                          plan_done = False\<rparr>,
          ci_worker = (\<lambda>a. Finished 4), ci_new_findings = 4,
          ci_assessment = \<lparr>ca_people = Conf_low, ca_initiative = Conf_none,
            ca_technology = Conf_none, ca_competitive = Conf_none, ca_financial = Conf_none,
            ca_market = Conf_none\<rparr>\<rparr>]
      (StartSession
         \<lparr>ca_people = Conf_none, ca_initiative = Conf_none, ca_technology = Conf_none,
          ca_competitive = Conf_none, ca_financial = Conf_none, ca_market = Conf_none\<rparr>))) = RS_stopped
   \<and> es_cycle_count (sh_session
     (run_actions
      [Engine_cycle
         \<lparr>ci_stop_before_dispatch = False, ci_stop_during_cycle = False,
          ci_plan = Some \<lparr>plan_assignments =
                            [\<lparr>as_id = ''a1'', as_topic = ''leadership'', as_priority = 0\<rparr>],
                          plan_done = False\<rparr>,
          ci_worker = (\<lambda>a. Finished 4), ci_new_findings = 4,
          ci_assessment = \<lparr>ca_people = Conf_low, ca_initiative = Conf_none,
            ca_technology = Conf_none, ca_competitive = Conf_none, ca_financial = Conf_none,
            ca_market = Conf_none\<rparr>\<rparr>,
       Call_Stop,
       Engine_cycle
         \<lparr>ci_stop_before_dispatch = False, ci_stop_during_cycle = False,
          ci_plan = Some \<lparr>plan_assignments =
                            [\<lparr>as_id = ''a1'', as_topic = ''leadership'', as_priority = 0\<rparr>],
                          plan_done = False\<rparr>,
          ci_worker = (\<lambda>a. Finished 4), ci_new_findings = 4,
          ci_assessment = \<lparr>ca_people = Conf_low, ca_initiative = Conf_none,
            ca_technology = Conf_none, ca_competitive = Conf_none, ca_financial = Conf_none,
            ca_market = Conf_none\<rparr>\<rparr>]
      (StartSession
         \<lparr>ca_people = Conf_none, ca_initiative = Conf_none, ca_technology = Conf_none,
          ca_competitive = Conf_none, ca_financial = Conf_none, ca_market = Conf_none\<rparr>))) = 1
   \<and> sh_terminal_events
     (run_actions
      [Engine_cycle
         \<lparr>ci_stop_before_dispatch = False, ci_stop_during_cycle = False,
          ci_plan = Some \<lparr>plan_assignments =
                            [\<lparr>as_id = ''a1'', as_topic = ''leadership'', as_priority = 0\<rparr>],
                          plan_done = False\<rparr>,
          ci_worker = (\<lambda>a. Finished 4), ci_new_findings = 4,
          ci_assessment = \<lparr>ca_people = Conf_low, ca_initiative = Conf_none,
            ca_technology = Conf_none, ca_competitive = Conf_none, ca_financial = Conf_none,
            ca_market = Conf_none\<rparr>\<rparr>,
       Call_Stop,
       Engine_cycle
         \<lparr>ci_stop_before_dispatch = False, ci_stop_during_cycle = False,
          ci_plan = Some \<lparr>plan_assignments =
                            [\<lparr>as_id = ''a1'', as_topic = ''leadership'', as_priority = 0\<rparr>],
                          plan_done = False\<rparr>,
          ci_worker = (\<lambda>a. Finished 4), ci_new_findings = 4,
          ci_assessment = \<lparr>ca_people = Conf_low, ca_initiative = Conf_none,
            ca_technology = Conf_none, ca_competitive = Conf_none, ca_financial = Conf_none,
            ca_market = Conf_none\<rparr>\<rparr>]
      (StartSession
         \<lparr>ca_people = Conf_none, ca_initiative = Conf_none, ca_technology = Conf_none,
          ca_competitive = Conf_none, ca_financial = Conf_none, ca_market = Conf_none\<rparr>)) = [(RS_stopped, Some ''stopped'')]
   \<and> run_actions
       [Call_Stop,
        Engine_cycle
         \<lparr>ci_stop_before_dispatch = False, ci_stop_during_cycle = False,
          ci_plan = Some \<lparr>plan_assignments =
                            [\<lparr>as_id = ''a1'', as_topic = ''leadership'', as_priority = 0\<rparr>],
                          plan_done = False\<rparr>,
          ci_worker = (\<lambda>a. Finished 4), ci_new_findings = 4,
          ci_assessment = \<lparr>ca_people = Conf_low, ca_initiative = Conf_none,
            ca_technology = Conf_none, ca_competitive = Conf_none, ca_financial = Conf_none,
            ca_market = Conf_none\<rparr>\<rparr>]
     (run_actions
      [Engine_cycle
         \<lparr>ci_stop_before_dispatch = False, ci_stop_during_cycle = False,
          ci_plan = Some \<lparr>plan_assignments =
                            [\<lparr>as_id = ''a1'', as_topic = ''leadership'', as_priority = 0\<rparr>],
                          plan_done = False\<rparr>,
          ci_worker = (\<lambda>a. Finished 4), ci_new_findings = 4,
          ci_assessment = \<lparr>ca_people = Conf_low, ca_initiative = Conf_none,
            ca_technology = Conf_none, ca_competitive = Conf_none, ca_financial = Conf_none,
            ca_market = Conf_none\<rparr>\<rparr>,
       Call_Stop,
       Engine_cycle
         \<lparr>ci_stop_before_dispatch = False, ci_stop_during_cycle = False,
          ci_plan = Some \<lparr>plan_assignments =
                            [\<lparr>as_id = ''a1'', as_topic = ''leadership'', as_priority = 0\<rparr>],
                          plan_done = False\<rparr>,
          ci_worker = (\<lambda>a. Finished 4), ci_new_findings = 4,
          ci_assessment = \<lparr>ca_people = Conf_low, ca_initiative = Conf_none,
            ca_technology = Conf_none, ca_competitive = Conf_none, ca_financial = Conf_none,
            ca_market = Conf_none\<rparr>\<rparr>]
      (StartSession
         \<lparr>ca_people = Conf_none, ca_initiative = Conf_none, ca_technology = Conf_none,
          ca_competitive = Conf_none, ca_financial = Conf_none, ca_market = Conf_none\<rparr>))
     = (run_actions
      [Engine_cycle
         \<lparr>ci_stop_before_dispatch = False, ci_stop_during_cycle = False,
          ci_plan = Some \<lparr>plan_assignments =
                            [\<lparr>as_id = ''a1'', as_topic = ''leadership'', as_priority = 0\<rparr>],
                          plan_done = False\<rparr>,
          ci_worker = (\<lambda>a. Finished 4), ci_new_findings = 4,
          ci_assessment = \<lparr>ca_people = Conf_low, ca_initiative = Conf_none,
            ca_technology = Conf_none, ca_competitive = Conf_none, ca_financial = Conf_none,
            ca_market = Conf_none\<rparr>\<rparr>,
       Call_Stop,
       Engine_cycle
         \<lparr>ci_stop_before_dispatch = False, ci_stop_during_cycle = False,
          ci_plan = Some \<lparr>plan_assignments =
                            [\<lparr>as_id = ''a1'', as_topic = ''leadership'', as_priority = 0\<rparr>],
                          plan_done = False\<rparr>,
          ci_worker = (\<lambda>a. Finished 4), ci_new_findings = 4,
          ci_assessment = \<lparr>ca_people = Conf_low, ca_initiative = Conf_none,
            ca_technology = Conf_none, ca_competitive = Conf_none, ca_financial = Conf_none,
            ca_market = Conf_none\<rparr>\<rparr>]
      (StartSession
         \<lparr>ca_people = Conf_none, ca_initiative = Conf_none, ca_technology = Conf_none,
          ca_competitive = Conf_none, ca_financial = Conf_none, ca_market = Conf_none\<rparr>))"
proof -
  let ?h = "(run_actions
      [Engine_cycle
         \<lparr>ci_stop_before_dispatch = False, ci_stop_during_cycle = False,
          ci_plan = Some \<lparr>plan_assignments =
                            [\<lparr>as_id = ''a1'', as_topic = ''leadership'', as_priority = 0\<rparr>],
                          plan_done = False\<rparr>,
          ci_worker = (\<lambda>a. Finished 4), ci_new_findings = 4,
          ci_assessment = \<lparr>ca_people = Conf_low, ca_initiative = Conf_none,
            ca_technology = Conf_none, ca_competitive = Conf_none, ca_financial = Conf_none,
            ca_market = Conf_none\<rparr>\<rparr>,
       Call_Stop,
       Engine_cycle
         \<lparr>ci_stop_before_dispatch = False, ci_stop_during_cycle = False,
          ci_plan = Some \<lparr>plan_assignments =
                            [\<lparr>as_id = ''a1'', as_topic = ''leadership'', as_priority = 0\<rparr>],
                          plan_done = False\<rparr>,
          ci_worker = (\<lambda>a. Finished 4), ci_new_findings = 4,
          ci_assessment = \<lparr>ca_people = Conf_low, ca_initiative = Conf_none,
            ca_technology = Conf_none, ca_competitive = Conf_none, ca_financial = Conf_none,
            ca_market = Conf_none\<rparr>\<rparr>]
      (StartSession
         \<lparr>ca_people = Conf_none, ca_initiative = Conf_none, ca_technology = Conf_none,
          ca_competitive = Conf_none, ca_financial = Conf_none, ca_market = Conf_none\<rparr>))"
  have stopped: "es_status (sh_session ?h) = RS_stopped"
    by (simp add: StartSession_def start_session_def Stop_def engine_step_def engine_cycle_def
        Let_def dispatched_def max_paths_def all_failed_def low_yield_threshold_def
        cycle_ceiling_def confidence_floor_met_def categoryConfig_keys_def)
  have count: "es_cycle_count (sh_session ?h) = 1"
    by (simp add: StartSession_def start_session_def Stop_def engine_step_def engine_cycle_def
        Let_def dispatched_def max_paths_def all_failed_def low_yield_threshold_def
        cycle_ceiling_def confidence_floor_met_def categoryConfig_keys_def)
  note t = stop_twice [OF refl stopped, of
        "[Engine_cycle
         \<lparr>ci_stop_before_dispatch = False, ci_stop_during_cycle = False,
          ci_plan = Some \<lparr>plan_assignments =
                            [\<lparr>as_id = ''a1'', as_topic = ''leadership'', as_priority = 0\<rparr>],
                          plan_done = False\<rparr>,
          ci_worker = (\<lambda>a. Finished 4), ci_new_findings = 4,
          ci_assessment = \<lparr>ca_people = Conf_low, ca_initiative = Conf_none,
            ca_technology = Conf_none, ca_competitive = Conf_none, ca_financial = Conf_none,
            ca_market = Conf_none\<rparr>\<rparr>]"
      "?h"]
  have ev: "sh_terminal_events ?h = [(RS_stopped, Some ''stopped'')]"
    using t by blast
  have run: "run_actions
       (Call_Stop #
        [Engine_cycle
         \<lparr>ci_stop_before_dispatch = False, ci_stop_during_cycle = False,
          ci_plan = Some \<lparr>plan_assignments =
                            [\<lparr>as_id = ''a1'', as_topic = ''leadership'', as_priority = 0\<rparr>],
                          plan_done = False\<rparr>,
          ci_worker = (\<lambda>a. Finished 4), ci_new_findings = 4,
          ci_assessment = \<lparr>ca_people = Conf_low, ca_initiative = Conf_none,
            ca_technology = Conf_none, ca_competitive = Conf_none, ca_financial = Conf_none,
            ca_market = Conf_none\<rparr>\<rparr>]) ?h = ?h"
    using t by blast
  show ?thesis
    using stopped count ev run by blast
qed

section \<open>Progress events\<close>

lemma data_get_drop_keys:
  "key \<notin> set keys \<Longrightarrow> data_get (drop_keys keys event) key = data_get event key"
proof -
  have "k \<notin> set ks \<Longrightarrow> map_of (filter (\<lambda>kv. fst kv \<notin> set ks) kvs) k = map_of kvs k"
    for k :: string and ks and kvs :: "(string \<times> json) list"
    by (induction kvs) auto
  then show "key \<notin> set keys \<Longrightarrow> data_get (drop_keys keys event) key = data_get event key"
    by (simp add: data_get_def drop_keys_def)
qed

lemma drop_keys_type: "ev_type (drop_keys keys event) = ev_type event"
  by (simp add: drop_keys_def)

lemma drop_keys_timestamp: "ev_timestamp (drop_keys keys event) = ev_timestamp event"
  by (simp add: drop_keys_def)

lemma formatEventMessage_drop_keys:
  "formatEventMessage (drop_keys [''reason'', ''recoverable''] event) = formatEventMessage event"
  unfolding formatEventMessage_def drop_keys_type
  by (cases "ev_type event") (simp_all add: data_get_drop_keys)

lemma handleSSEEvent_drop_keys:
  "handleSSEEvent now (drop_keys [''reason'', ''recoverable''] event) s = handleSSEEvent now event s"
  unfolding handleSSEEvent_def drop_keys_type drop_keys_timestamp formatEventMessage_drop_keys
  by (cases "ev_type event") (simp_all add: data_get_drop_keys)

text \<open>
  The type of an event is one of exactly nine kinds. The handler logs every event under
  its type and timestamp, and of an event's data it reads neither a reason nor a
  recoverable flag: removing both leaves the handler's result the same.
\<close>

theorem sse_event_kinds:
  "ev_type event \<in> set SSEEventType_all
   \<and> map SSEEventType_literal SSEEventType_all
       = [''cycle_started'', ''subagent_started'', ''subagent_completed'', ''subagent_stopped'',
          ''synthesis_complete'', ''findings_updated'', ''initiative_discovered'',
          ''research_complete'', ''error'']
   \<and> distinct (map SSEEventType_literal SSEEventType_all)
   \<and> activityLog (handleSSEEvent now event s)
       = activityLog s @
         [\<lparr>le_id = SSEEventType_literal (ev_type event) @ ''-'' @ decimal now,
           le_type = SSEEventType_literal (ev_type event),
           le_message = formatEventMessage event,
           le_timestamp = ev_timestamp event\<rparr>]
   \<and> handleSSEEvent now (drop_keys [''reason'', ''recoverable''] event) s
       = handleSSEEvent now event s"
proof -
  have a: "ev_type event \<in> set SSEEventType_all"
    by (cases "ev_type event") (simp_all add: SSEEventType_all_def)
  have b: "map SSEEventType_literal SSEEventType_all
       = [''cycle_started'', ''subagent_started'', ''subagent_completed'', ''subagent_stopped'',
          ''synthesis_complete'', ''findings_updated'', ''initiative_discovered'',
          ''research_complete'', ''error'']"
    by (simp add: SSEEventType_all_def)
  have c: "distinct (map SSEEventType_literal SSEEventType_all)"
    unfolding b by simp
  have d: "activityLog (handleSSEEvent now event s)
       = activityLog s @
         [\<lparr>le_id = SSEEventType_literal (ev_type event) @ ''-'' @ decimal now,
           le_type = SSEEventType_literal (ev_type event),
           le_message = formatEventMessage event,
           le_timestamp = ev_timestamp event\<rparr>]"
    unfolding handleSSEEvent_def by (cases "ev_type event") (simp_all add: Let_def)
  show ?thesis using a b c d handleSSEEvent_drop_keys by blast
qed

text \<open>
  The data of an event is an untyped record: a stopped event without a reason is a value
  of \<open>SSEEvent\<close> that does not have the payload of the specification's event list, and
  \<open>handleSSEEvent\<close> logs it and handles it as a stop.
\<close>

theorem stopped_event_without_reason:
  "\<not> spec_payload \<lparr>ev_type = Ev_subagent_stopped, ev_timestamp = ''2025-01-01T00:00:00Z'',
        ev_session_id = ''s1'',
        ev_data = [(''path_id'', JStr ''p1''), (''topic'', JStr ''Leadership'')]\<rparr>
   \<and> activePaths (handleSSEEvent 7
        \<lparr>ev_type = Ev_subagent_stopped, ev_timestamp = ''2025-01-01T00:00:00Z'',
         ev_session_id = ''s1'',
         ev_data = [(''path_id'', JStr ''p1''), (''topic'', JStr ''Leadership'')]\<rparr>
        \<lparr>session = None, dashboard = Some JNull, activityLog = [],
         activePaths = [Some (JStr ''p1'') \<mapsto> \<lparr>ap_topic = Some (JStr ''Leadership''), ap_startedAt = 3\<rparr>],
         error = Some JNull, followUpQuestion = [], isSubmittingFollowUp = False\<rparr>)
       (Some (JStr ''p1'')) = None
   \<and> map le_type (activityLog (handleSSEEvent 7
        \<lparr>ev_type = Ev_subagent_stopped, ev_timestamp = ''2025-01-01T00:00:00Z'',
         ev_session_id = ''s1'',
         ev_data = [(''path_id'', JStr ''p1''), (''topic'', JStr ''Leadership'')]\<rparr>
        \<lparr>session = None, dashboard = Some JNull, activityLog = [],
         activePaths = [Some (JStr ''p1'') \<mapsto> \<lparr>ap_topic = Some (JStr ''Leadership''), ap_startedAt = 3\<rparr>],
         error = Some JNull, followUpQuestion = [], isSubmittingFollowUp = False\<rparr>))
       = [''subagent_stopped'']"
  by (simp add: spec_payload_def data_get_def handleSSEEvent_def Let_def)

lemma SSEEventType_all_UNIV: "set SSEEventType_all = UNIV"
proof -
  have "t \<in> set SSEEventType_all" for t
    by (cases t) (simp_all add: SSEEventType_all_def)
  then show ?thesis by blast
qed

lemma event_kind_onto: "range event_kind = UNIV"
proof -
  have "\<exists>p. event_kind p = t" for t
  proof (cases t)
    case Ev_cycle_started
    then show ?thesis using event_kind.simps(1) by blast
  next
    case Ev_subagent_started
    then show ?thesis using event_kind.simps(2) by blast
  next
    case Ev_subagent_completed
    then show ?thesis using event_kind.simps(3) by blast
  next
    case Ev_subagent_stopped
    then show ?thesis using event_kind.simps(4) by blast
  next
    case Ev_synthesis_complete
    then show ?thesis using event_kind.simps(5) by blast
  next
    case Ev_findings_updated
    then show ?thesis using event_kind.simps(6) by blast
  next
    case Ev_initiative_discovered
    then show ?thesis using event_kind.simps(7) by blast
  next
    case Ev_research_complete
    then show ?thesis using event_kind.simps(8) by blast
  next
    case Ev_error
    then show ?thesis using event_kind.simps(9) by blast
  qed
  then show ?thesis by (metis surj_def)
qed

text \<open>
  Claim C3. Every progress event emitted on a session's stream is timestamped and
  session-scoped, and its type is one of exactly nine kinds, each of which occurs:
  cycle-started, path-started, path-completed, path-stopped, synthesis-complete,
  intelligence-updated, initiative-discovered, session-complete and error. A path-stopped
  event carries a reason that is user, budget or error, and an error event a message and
  a recoverable flag. On the receiving side the page logs each emitted event under its
  kind and timestamp, a path-stopped event removes its path from the active paths, and
  an error event's message becomes the page's error.
\<close>

theorem emitted_events:
  "ev_timestamp (emit stamp sid p) = stamp \<and> ev_session_id (emit stamp sid p) = sid
   \<and> ev_type (emit stamp sid p) \<in> set SSEEventType_all
   \<and> length SSEEventType_all = 9 \<and> distinct SSEEventType_all
   \<and> range (\<lambda>q. ev_type (emit stamp sid q)) = set SSEEventType_all
   \<and> spec_payload (emit stamp sid p)
   \<and> data_get (emit stamp sid (PathStopped path_id topic reason)) ''reason''
       = Some (JStr (StopReason_literal reason))
   \<and> StopReason_literal reason \<in> set [''user'', ''budget'', ''error'']
   \<and> data_get (emit stamp sid (ErrorEvent msg recoverable)) ''message'' = Some (JStr msg)
   \<and> data_get (emit stamp sid (ErrorEvent msg recoverable)) ''recoverable''
       = Some (JBool recoverable)
   \<and> map le_type (activityLog (handleSSEEvent now (emit stamp sid p) s))
       = map le_type (activityLog s) @ [SSEEventType_literal (event_kind p)]
   \<and> map le_timestamp (activityLog (handleSSEEvent now (emit stamp sid p) s))
       = map le_timestamp (activityLog s) @ [stamp]
   \<and> activePaths (handleSSEEvent now (emit stamp sid (PathStopped path_id topic reason)) s)
        (Some (JStr path_id)) = None
   \<and> error (handleSSEEvent now (emit stamp sid (ErrorEvent msg recoverable)) s)
       = Some (JStr msg)"
proof -
  have a: "ev_type (emit stamp sid p) \<in> set SSEEventType_all"
    by (simp add: SSEEventType_all_UNIV)
  have b: "length SSEEventType_all = 9 \<and> distinct SSEEventType_all"
    by (simp add: SSEEventType_all_def)
  have c: "range (\<lambda>q. ev_type (emit stamp sid q)) = set SSEEventType_all"
    using event_kind_onto by (simp add: emit_def SSEEventType_all_UNIV)
  have r: "StopReason_literal reason \<in> set [''user'', ''budget'', ''error'']"
    by (cases reason) simp_all
  have d: "spec_payload (emit stamp sid p)"
  proof (cases p)
    case (PathStopped pid tp rs)
    then show ?thesis
      by (cases rs) (simp_all add: spec_payload_def emit_def data_get_def)
  qed (simp_all add: spec_payload_def emit_def data_get_def)
  have e: "data_get (emit stamp sid (PathStopped path_id topic reason)) ''reason''
       = Some (JStr (StopReason_literal reason))"
    by (simp add: emit_def data_get_def)
  have f: "data_get (emit stamp sid (ErrorEvent msg recoverable)) ''message'' = Some (JStr msg)
    \<and> data_get (emit stamp sid (ErrorEvent msg recoverable)) ''recoverable''
       = Some (JBool recoverable)"
    by (simp add: emit_def data_get_def)
  have g: "activityLog (handleSSEEvent now ev s)
       = activityLog s @
         [\<lparr>le_id = SSEEventType_literal (ev_type ev) @ ''-'' @ decimal now,
           le_type = SSEEventType_literal (ev_type ev),
           le_message = formatEventMessage ev,
           le_timestamp = ev_timestamp ev\<rparr>]" for ev
    unfolding handleSSEEvent_def by (cases "ev_type ev") (simp_all add: Let_def)
  have h: "map le_type (activityLog (handleSSEEvent now (emit stamp sid p) s))
       = map le_type (activityLog s) @ [SSEEventType_literal (event_kind p)]
     \<and> map le_timestamp (activityLog (handleSSEEvent now (emit stamp sid p) s))
       = map le_timestamp (activityLog s) @ [stamp]"
    by (simp add: g emit_def)
  have i: "activePaths (handleSSEEvent now (emit stamp sid (PathStopped path_id topic reason)) s)
        (Some (JStr path_id)) = None"
    by (simp add: handleSSEEvent_def emit_def data_get_def Let_def)
  have j: "error (handleSSEEvent now (emit stamp sid (ErrorEvent msg recoverable)) s)
       = Some (JStr msg)"
    by (simp add: handleSSEEvent_def emit_def data_get_def Let_def)
  show ?thesis using a b c d e f h i j r by (simp add: emit_def)
qed

section \<open>A cycle in which every worker fails\<close>

lemma engine_cycle_terminal: "es_status s \<noteq> RS_running \<Longrightarrow> engine_cycle ci s = s"
  by (simp add: engine_cycle_def)

lemma run_session_terminal: "es_status s \<noteq> RS_running \<Longrightarrow> run_session inputs s = s"
  by (induction inputs) (simp_all add: engine_cycle_terminal)

lemma dispatched_cap: "length (dispatched plan) \<le> 5"
  by (simp add: dispatched_def max_paths_def)

lemma cycle_with_a_result_not_failed:
  assumes "es_status s = RS_running" and "ci_plan ci = Some plan"
    and "a \<in> set (dispatched plan)" and "ci_worker ci a \<noteq> WorkerFailure"
  shows "es_status (engine_cycle ci s) \<noteq> RS_failed"
proof -
  have "\<not> all_failed (map (ci_worker ci) (dispatched plan))"
    using assms(3,4) by (auto simp: all_failed_def list_all_iff)
  then show ?thesis
    using assms(1,2) by (simp add: engine_cycle_def Let_def)
qed

text \<open>
  Claim C2. When every worker dispatched in a cycle fails, the session becomes failed and
  no further cycle starts: for a running session whose StopSignal is not set in the cycle
  and whose plan dispatches at least one worker, if every dispatched worker returns a failure then
  the cycle ends with status failed, and whatever cycle inputs follow, the session stays
  failed with the cycle count of that cycle.
\<close>

theorem all_workers_failed:
  assumes "es_status s = RS_running"
    and "\<not> ci_stop_before_dispatch ci \<and> \<not> ci_stop_during_cycle ci"
    and "ci_plan ci = Some plan"
    and "dispatched plan \<noteq> []"
    and "\<forall>a \<in> set (dispatched plan). ci_worker ci a = WorkerFailure"
  shows "es_status (engine_cycle ci s) = RS_failed
         \<and> es_cycle_count (engine_cycle ci s) = es_cycle_count s + 1
         \<and> run_session (ci # rest) s = engine_cycle ci s
         \<and> es_status (run_session (ci # rest) s) = RS_failed
         \<and> es_cycle_count (run_session (ci # rest) s) = es_cycle_count s + 1"
proof -
  have af: "all_failed (map (ci_worker ci) (dispatched plan))"
    using assms(4,5) by (simp add: all_failed_def list_all_iff)
  have st: "es_status (engine_cycle ci s) = RS_failed"
    using assms(1-3) af by (simp add: engine_cycle_def Let_def)
  have cn: "es_cycle_count (engine_cycle ci s) = es_cycle_count s + 1"
    using assms(1-3) af by (simp add: engine_cycle_def Let_def)
  have rs: "run_session (ci # rest) s = engine_cycle ci s"
    using st by (simp add: run_session_terminal)
  show ?thesis using st cn rs by simp
qed

theorem all_workers_failed_witness:
  "es_status (run_session
      [\<lparr>ci_stop_before_dispatch = False, ci_stop_during_cycle = False,
        ci_plan = Some \<lparr>plan_assignments =
                          [\<lparr>as_id = ''a1'', as_topic = ''leadership'', as_priority = 1\<rparr>,
                           \<lparr>as_id = ''a2'', as_topic = ''technology'', as_priority = 0\<rparr>],
                        plan_done = False\<rparr>,
        ci_worker = (\<lambda>a. WorkerFailure), ci_new_findings = 0,
        ci_assessment = \<lparr>ca_people = Conf_none, ca_initiative = Conf_none,
          ca_technology = Conf_none, ca_competitive = Conf_none, ca_financial = Conf_none,
          ca_market = Conf_none\<rparr>\<rparr>,
       \<lparr>ci_stop_before_dispatch = False, ci_stop_during_cycle = False,
        ci_plan = Some \<lparr>plan_assignments =
                          [\<lparr>as_id = ''b1'', as_topic = ''market'', as_priority = 0\<rparr>],
                        plan_done = False\<rparr>,
        ci_worker = (\<lambda>a. Finished 4), ci_new_findings = 4,
        ci_assessment = \<lparr>ca_people = Conf_low, ca_initiative = Conf_none,
          ca_technology = Conf_none, ca_competitive = Conf_none, ca_financial = Conf_none,
          ca_market = Conf_low\<rparr>\<rparr>]
      (start_session \<lparr>ca_people = Conf_none, ca_initiative = Conf_none,
          ca_technology = Conf_none, ca_competitive = Conf_none, ca_financial = Conf_none,
          ca_market = Conf_none\<rparr>)) = RS_failed
   \<and> es_cycle_count (run_session
      [\<lparr>ci_stop_before_dispatch = False, ci_stop_during_cycle = False,
        ci_plan = Some \<lparr>plan_assignments =
                          [\<lparr>as_id = ''a1'', as_topic = ''leadership'', as_priority = 1\<rparr>,
                           \<lparr>as_id = ''a2'', as_topic = ''technology'', as_priority = 0\<rparr>],
                        plan_done = False\<rparr>,
        ci_worker = (\<lambda>a. WorkerFailure), ci_new_findings = 0,
        ci_assessment = \<lparr>ca_people = Conf_none, ca_initiative = Conf_none,
          ca_technology = Conf_none, ca_competitive = Conf_none, ca_financial = Conf_none,
          ca_market = Conf_none\<rparr>\<rparr>,
       \<lparr>ci_stop_before_dispatch = False, ci_stop_during_cycle = False,
        ci_plan = Some \<lparr>plan_assignments =
                          [\<lparr>as_id = ''b1'', as_topic = ''market'', as_priority = 0\<rparr>],
                        plan_done = False\<rparr>,
        ci_worker = (\<lambda>a. Finished 4), ci_new_findings = 4,
        ci_assessment = \<lparr>ca_people = Conf_low, ca_initiative = Conf_none,
          ca_technology = Conf_none, ca_competitive = Conf_none, ca_financial = Conf_none,
          ca_market = Conf_low\<rparr>\<rparr>]
      (start_session \<lparr>ca_people = Conf_none, ca_initiative = Conf_none,
          ca_technology = Conf_none, ca_competitive = Conf_none, ca_financial = Conf_none,
          ca_market = Conf_none\<rparr>)) = 1"
proof -
  let ?a0 = "\<lparr>ca_people = Conf_none, ca_initiative = Conf_none,
          ca_technology = Conf_none, ca_competitive = Conf_none, ca_financial = Conf_none,
          ca_market = Conf_none\<rparr>"
  let ?plan = "\<lparr>plan_assignments =
                          [\<lparr>as_id = ''a1'', as_topic = ''leadership'', as_priority = 1\<rparr>,
                           \<lparr>as_id = ''a2'', as_topic = ''technology'', as_priority = 0\<rparr>],
                        plan_done = False\<rparr>"
  let ?ci = "\<lparr>ci_stop_before_dispatch = False, ci_stop_during_cycle = False,
        ci_plan = Some ?plan,
        ci_worker = (\<lambda>a. WorkerFailure), ci_new_findings = 0, ci_assessment = ?a0\<rparr>"
  have h1: "es_status (start_session ?a0) = RS_running"
    by (simp add: start_session_def)
  have h2: "\<not> ci_stop_before_dispatch ?ci \<and> \<not> ci_stop_during_cycle ?ci" by simp
  have h3: "ci_plan ?ci = Some ?plan" by simp
  have h4: "dispatched ?plan \<noteq> []"
    by (simp add: dispatched_def max_paths_def)
  have h5: "\<forall>a \<in> set (dispatched ?plan). ci_worker ?ci a = WorkerFailure" by simp
  have c0: "es_cycle_count (start_session ?a0) = 0"
    by (simp add: start_session_def)
  show ?thesis
    using all_workers_failed [OF h1 h2 h3 h4 h5] c0 by simp
qed

end
